theory Spec2Isabelle
  imports Main "HOL-Library.Word"
begin

unbundle bit_operations_syntax

section \<open>The ADF4377 driver (drv/adf4377.c)\<close>

text \<open>
  A shallow embedding of \<^verbatim>\<open>drv/adf4377.c\<close>. Every C function of the file is one
  definition of the same name. A function returns its \<^verbatim>\<open>int32_t\<close> code together
  with the device structure it leaves behind; a function that contains a loop which need
  not end returns an \<open>option\<close>, \<open>None\<close> meaning that the call never returns.

  The driver's header \<^verbatim>\<open>adf4377.h\<close> and the platform headers (\<^verbatim>\<open>error.h\<close>,
  \<^verbatim>\<open>delay.h\<close>, the SPI and GPIO layers, the utility macros) are not part of the
  sources. What the code takes from them is either a parameter of the model (the record
  \<open>adf4377_h\<close> below) or is modelled from the specification, and says so.
\<close>

subsection \<open>Machine types\<close>

type_synonym uint8_t = "8 word"
type_synonym uint16_t = "16 word"
type_synonym uint32_t = "32 word"
type_synonym int32_t = "32 word"

text \<open>The three-byte transfer buffer \<^verbatim>\<open>uint8_t buff[ADF4377_BUFF_SIZE_BYTES]\<close>:
  \<open>(buff[0], buff[1], buff[2])\<close>.\<close>

type_synonym buff = "uint8_t \<times> uint8_t \<times> uint8_t"

subsection \<open>The missing headers\<close>

text \<open>
  The constants and macros of the absent headers, as a parameter. The fields with a name
  of their own are the constants that decide control flow or enter the arithmetic; the
  register-field macros, which only shape the bytes written to the chip, are looked up by
  their C name: \<open>mac H ''N''\<close> is the object-like macro \<^verbatim>\<open>N\<close> and
  \<open>macf H ''N'' x\<close> the function-like macro \<^verbatim>\<open>N(x)\<close>, both as C integers.
  The \<^verbatim>\<open>DCLK\<close> codes are given as the byte the \<^verbatim>\<open>uint8_t\<close> local receives.
\<close>

record adf4377_h =
  SUCCESS :: int32_t
  FAILURE :: int32_t
  ENOMEM :: int32_t
  ADF4377_SPI_SCRATCHPAD :: int
  ADF4377_CHIP_TYPE :: int
  ADF4377_MIN_VCO_FREQ :: nat
  ADF4377_MAX_CLKPN_FREQ :: nat
  ADF4377_MIN_CLKPN_FREQ :: nat
  ADF4377_MAX_FREQ_PFD :: nat
  ADF4377_MIN_FREQ_PFD :: nat
  ADF4377_DCLK_DIV1_1 :: uint8_t
  ADF4377_DCLK_DIV1_2 :: uint8_t
  ADF4377_DCLK_DIV2_1 :: uint8_t
  ADF4377_DCLK_DIV2_2 :: uint8_t
  ADF4377_DCLK_MODE_DIS :: uint8_t
  ADF4377_DCLK_MODE_EN :: uint8_t
  mac :: "string \<Rightarrow> int"
  macf :: "string \<Rightarrow> int \<Rightarrow> int"

text \<open>Modelled from the spec: the wire-format constants of \<^verbatim>\<open>adf4377.h\<close> (section 6,
  "Byte 0: command, 0x00 for write, 0x80 for read"; "dummy 0x00").\<close>

definition ADF4377_SPI_WRITE_CMD :: uint8_t where
  "ADF4377_SPI_WRITE_CMD = 0x00"

definition ADF4377_SPI_READ_CMD :: uint8_t where
  "ADF4377_SPI_READ_CMD = 0x80"

definition ADF4377_SPI_DUMMY_DATA :: uint8_t where
  "ADF4377_SPI_DUMMY_DATA = 0x00"

text \<open>Modelled from the spec: the macro \<^verbatim>\<open>ADF4377_REG\<close> of \<^verbatim>\<open>adf4377.h\<close>; the
  register map of section 6 addresses a register by the number the code passes.\<close>

definition ADF4377_REG :: "uint8_t \<Rightarrow> uint8_t" where
  "ADF4377_REG x = x"

text \<open>Modelled from the spec: the thresholds of the table of section 4.6, which the
  macros \<^verbatim>\<open>ADF4377_FREQ_PFD_80MHZ\<close> ... \<^verbatim>\<open>ADF4377_FREQ_PFD_320MHZ\<close> name.\<close>

definition ADF4377_FREQ_PFD_80MHZ :: nat where
  "ADF4377_FREQ_PFD_80MHZ = 80000000"

definition ADF4377_FREQ_PFD_125MHZ :: nat where
  "ADF4377_FREQ_PFD_125MHZ = 125000000"

definition ADF4377_FREQ_PFD_160MHZ :: nat where
  "ADF4377_FREQ_PFD_160MHZ = 160000000"

definition ADF4377_FREQ_PFD_250MHZ :: nat where
  "ADF4377_FREQ_PFD_250MHZ = 250000000"

definition ADF4377_FREQ_PFD_320MHZ :: nat where
  "ADF4377_FREQ_PFD_320MHZ = 320000000"

text \<open>Modelled from the spec: the macro \<^verbatim>\<open>ADF4377_CHECK_RANGE(freq, range)\<close>; sections
  4.5 and 4.7 validate a frequency against its legal range and fail when it is outside.
  The result is true when the frequency is out of range.\<close>

definition ADF4377_CHECK_RANGE :: "nat \<Rightarrow> nat \<Rightarrow> nat \<Rightarrow> bool" where
  "ADF4377_CHECK_RANGE freq range_min range_max \<longleftrightarrow> freq > range_max \<or> freq < range_min"

text \<open>Modelled from the spec: the utility macro \<^verbatim>\<open>DIV_ROUND_UP\<close>; section 4.6 calls
  these quotients "ceiling divisions".\<close>

definition DIV_ROUND_UP :: "nat \<Rightarrow> nat \<Rightarrow> nat" where
  "DIV_ROUND_UP x y = (x + y - 1) div y"

text \<open>Modelled from the spec: the utility macro \<^verbatim>\<open>bit_swap_constant_8\<close>; sections 4.1
  and 6 say that each byte is bit-reversed. Bit \<open>i\<close> of the argument becomes bit
  \<open>7 - i\<close> of the result.\<close>

definition bit_swap_constant_8 :: "uint8_t \<Rightarrow> uint8_t" where
  "bit_swap_constant_8 x =
     (drop_bit 7 (x AND 0x80) OR drop_bit 5 (x AND 0x40) OR
      drop_bit 3 (x AND 0x20) OR drop_bit 1 (x AND 0x10) OR
      push_bit 1 (x AND 0x08) OR push_bit 3 (x AND 0x04) OR
      push_bit 5 (x AND 0x02) OR push_bit 7 (x AND 0x01))"

subsection \<open>The bus and the device structure\<close>

text \<open>
  Modelled from the spec: the SPI descriptor and \<^verbatim>\<open>spi_write_and_read\<close> of the
  platform's SPI layer (section 6, bus contract): a full-duplex three-byte transfer that
  overwrites the buffer with the received bytes and returns a code; a \<open>bit_order\<close> flag on
  the descriptor selects LSB-first. The far end of the bus is a state machine: \<open>transfer\<close>
  takes its state and the transmitted buffer and gives the code, the received buffer and
  the next state. \<open>sent\<close> records every buffer handed to the bus, oldest first.
\<close>

record 'c spi_desc =
  bit_order :: nat
  transfer :: "'c \<Rightarrow> buff \<Rightarrow> int32_t \<times> buff \<times> 'c"
  chip :: 'c
  sent :: "buff list"

definition spi_write_and_read :: "'c spi_desc \<Rightarrow> buff \<Rightarrow> int32_t \<times> buff \<times> 'c spi_desc" where
  "spi_write_and_read desc b =
     (case transfer desc (chip desc) b of
        (ret, rx, c) \<Rightarrow> (ret, rx, desc\<lparr>chip := c, sent := sent desc @ [b]\<rparr>))"

text \<open>A GPIO line is named by its number; a handle or a parameter that is \<^verbatim>\<open>NULL\<close>
  is \<open>None\<close>.\<close>

type_synonym gpio_desc = "nat option"

text \<open>
  Modelled from the spec: \<^verbatim>\<open>struct adf4377_dev\<close> of \<^verbatim>\<open>adf4377.h\<close>, with the
  attributes of the data model of section 3. The specification gives the frequencies in
  Hz and the dividers as non-negative integers and no storage width, so they are naturals
  here. A GPIO handle is absent (\<open>None\<close>) or present.
\<close>

record 'c adf4377_dev =
  spi_desc :: "'c spi_desc"
  gpio_ce :: gpio_desc
  gpio_enclk1 :: gpio_desc
  gpio_enclk2 :: gpio_desc
  spi3wire :: bool
  clkin_freq :: nat
  cp_i :: nat
  muxout_default :: nat
  ref_doubler_en :: nat
  f_pfd :: nat
  f_clk :: nat
  f_vco :: nat
  n_int :: nat
  clkout_div_sel :: nat
  ref_div_factor :: nat
  clkout_op :: nat

subsection \<open>Register access\<close>

text \<open>The buffer \<^verbatim>\<open>adf4377_spi_write\<close> fills before the transfer (lines 64 to 72).\<close>

definition adf4377_spi_write_buff :: "nat \<Rightarrow> uint8_t \<Rightarrow> uint8_t \<Rightarrow> buff" where
  "adf4377_spi_write_buff order reg_addr data =
     (if order \<noteq> 0
      then (bit_swap_constant_8 reg_addr,
            bit_swap_constant_8 ADF4377_SPI_WRITE_CMD,
            bit_swap_constant_8 data)
      else (ADF4377_SPI_WRITE_CMD, reg_addr, data))"

definition adf4377_spi_write ::
  "'c adf4377_dev \<Rightarrow> uint8_t \<Rightarrow> uint8_t \<Rightarrow> int32_t \<times> 'c adf4377_dev" where
  "adf4377_spi_write dev reg_addr data =
     (case spi_write_and_read (spi_desc dev)
             (adf4377_spi_write_buff (bit_order (spi_desc dev)) reg_addr data) of
        (ret, rx, desc) \<Rightarrow> (ret, dev\<lparr>spi_desc := desc\<rparr>))"

text \<open>The buffer \<^verbatim>\<open>adf4377_spi_read\<close> fills before the transfer (lines 116 to 124).\<close>

definition adf4377_spi_read_buff :: "nat \<Rightarrow> uint8_t \<Rightarrow> buff" where
  "adf4377_spi_read_buff order reg_addr =
     (if order \<noteq> 0
      then (bit_swap_constant_8 reg_addr,
            bit_swap_constant_8 ADF4377_SPI_READ_CMD,
            bit_swap_constant_8 ADF4377_SPI_DUMMY_DATA)
      else (ADF4377_SPI_READ_CMD, reg_addr, ADF4377_SPI_DUMMY_DATA))"

text \<open>
  \<^verbatim>\<open>adf4377_spi_read(dev, reg_addr, data)\<close>. The argument \<open>data\<close> is the content of
  the caller's variable \<^verbatim>\<open>*data\<close> before the call, \<open>None\<close> when the variable is
  not initialised; the second component of the result is its content after the call.
\<close>

definition adf4377_spi_read ::
  "adf4377_h \<Rightarrow> 'c adf4377_dev \<Rightarrow> uint8_t \<Rightarrow> uint8_t option \<Rightarrow>
     int32_t \<times> uint8_t option \<times> 'c adf4377_dev" where
  "adf4377_spi_read H dev reg_addr data =
     (case spi_write_and_read (spi_desc dev)
             (adf4377_spi_read_buff (bit_order (spi_desc dev)) reg_addr) of
        (ret, (b0, b1, b2), desc) \<Rightarrow>
          if ret \<noteq> SUCCESS H then (ret, data, dev\<lparr>spi_desc := desc\<rparr>)
          else (ret, Some b2, dev\<lparr>spi_desc := desc\<rparr>))"

text \<open>
  \<^verbatim>\<open>adf4377_update\<close>. The local \<^verbatim>\<open>read_val\<close> is not initialised, and is read only
  after a successful \<^verbatim>\<open>adf4377_spi_read\<close> has assigned it.
\<close>

definition adf4377_update ::
  "adf4377_h \<Rightarrow> 'c adf4377_dev \<Rightarrow> uint8_t \<Rightarrow> uint8_t \<Rightarrow> uint8_t \<Rightarrow> int32_t \<times> 'c adf4377_dev" where
  "adf4377_update H dev reg_addr msk data =
     (case adf4377_spi_read H dev reg_addr None of
        (ret, read_val, dev1) \<Rightarrow>
          if ret \<noteq> SUCCESS H then (ret, dev1)
          else adf4377_spi_write dev1 reg_addr ((the read_val AND NOT msk) OR data))"

text \<open>
  The idiom \<^verbatim>\<open>ret = call; if (ret != SUCCESS) return ret;\<close> followed by the rest of
  the function, which sees \<open>ret\<close> and the device: \<open>checked\<close> inside a function that
  always returns, \<open>checked_opt\<close> inside one that may not, and \<open>checked_call\<close> when the
  callee itself may not return.
\<close>

definition checked ::
  "adf4377_h \<Rightarrow> int32_t \<times> 'c adf4377_dev \<Rightarrow>
     (int32_t \<Rightarrow> 'c adf4377_dev \<Rightarrow> int32_t \<times> 'c adf4377_dev) \<Rightarrow> int32_t \<times> 'c adf4377_dev" where
  "checked H r rest = (case r of (ret, dev) \<Rightarrow> if ret \<noteq> SUCCESS H then (ret, dev) else rest ret dev)"

definition checked_opt ::
  "adf4377_h \<Rightarrow> int32_t \<times> 'c adf4377_dev \<Rightarrow>
     (int32_t \<Rightarrow> 'c adf4377_dev \<Rightarrow> (int32_t \<times> 'c adf4377_dev) option) \<Rightarrow>
     (int32_t \<times> 'c adf4377_dev) option" where
  "checked_opt H r rest =
     (case r of (ret, dev) \<Rightarrow> if ret \<noteq> SUCCESS H then Some (ret, dev) else rest ret dev)"

definition checked_call ::
  "adf4377_h \<Rightarrow> (int32_t \<times> 'c adf4377_dev) option \<Rightarrow>
     (int32_t \<Rightarrow> 'c adf4377_dev \<Rightarrow> (int32_t \<times> 'c adf4377_dev) option) \<Rightarrow>
     (int32_t \<times> 'c adf4377_dev) option" where
  "checked_call H r rest = (case r of None \<Rightarrow> None | Some r1 \<Rightarrow> checked_opt H r1 rest)"

subsection \<open>Scratchpad check and default registers\<close>

definition adf4377_check_scratchpad ::
  "adf4377_h \<Rightarrow> 'c adf4377_dev \<Rightarrow> int32_t \<times> 'c adf4377_dev" where
  "adf4377_check_scratchpad H dev =
     checked H (adf4377_spi_write dev (ADF4377_REG 0x0A) (of_int (ADF4377_SPI_SCRATCHPAD H)))
       (\<lambda>ret dev.
     case adf4377_spi_read H dev (ADF4377_REG 0x0A) None of
       (ret, scratchpad, dev) \<Rightarrow>
         if ret \<noteq> SUCCESS H then (ret, dev)
         else if uint (the scratchpad) \<noteq> ADF4377_SPI_SCRATCHPAD H then (FAILURE H, dev)
         else (SUCCESS H, dev))"

definition adf4377_set_default ::
  "adf4377_h \<Rightarrow> 'c adf4377_dev \<Rightarrow> int32_t \<times> 'c adf4377_dev" where
  "adf4377_set_default H dev =
     checked H (adf4377_spi_write dev (ADF4377_REG 0x0f) (of_int (mac H ''ADF4377_R00F_RSV1'')))
       (\<lambda>ret dev.
     checked H (adf4377_update H dev (ADF4377_REG 0x1c)
                  (of_int (mac H ''ADF4377_R01C_RSV1_MSK''))
                  (of_int (macf H ''ADF4377_R01C_RSV1'' 0x1)))
       (\<lambda>ret dev.
     checked H (adf4377_update H dev (ADF4377_REG 0x1f)
                  (of_int (mac H ''ADF4377_R01F_RSV1_MSK''))
                  (of_int (macf H ''ADF4377_R01F_RSV1'' 0x7)))
       (\<lambda>ret dev.
     checked H (adf4377_update H dev (ADF4377_REG 0x20)
                  (of_int (mac H ''ADF4377_R020_RSV1_MSK''))
                  (of_int (macf H ''ADF4377_R020_RSV1'' 0x1)))
       (\<lambda>ret dev.
     checked H (adf4377_spi_write dev (ADF4377_REG 0x21) (of_int (mac H ''ADF4377_R021_RSV1'')))
       (\<lambda>ret dev.
     checked H (adf4377_spi_write dev (ADF4377_REG 0x22) (of_int (mac H ''ADF4377_R022_RSV1'')))
       (\<lambda>ret dev.
     checked H (adf4377_spi_write dev (ADF4377_REG 0x23) (of_int (mac H ''ADF4377_R023_RSV1'')))
       (\<lambda>ret dev.
     checked H (adf4377_update H dev (ADF4377_REG 0x25)
                  (of_int (mac H ''ADF4377_R025_RSV1_MSK''))
                  (of_int (macf H ''ADF4377_R025_RSV1'' 0xB)))
       (\<lambda>ret dev.
     checked H (adf4377_spi_write dev (ADF4377_REG 0x2C) (of_int (mac H ''ADF4377_R02C_RSV1'')))
       (\<lambda>ret dev.
     checked H (adf4377_spi_write dev (ADF4377_REG 0x31) (of_int (mac H ''ADF4377_R031_RSV1'')))
       (\<lambda>ret dev.
     checked H (adf4377_update H dev (ADF4377_REG 0x32)
                  (of_int (mac H ''ADF4377_R032_RSV1_MSK''))
                  (of_int (macf H ''ADF4377_R032_RSV1'' 0x9)))
       (\<lambda>ret dev.
     checked H (adf4377_spi_write dev (ADF4377_REG 0x33) (of_int (mac H ''ADF4377_R033_RSV1'')))
       (\<lambda>ret dev.
     checked H (adf4377_spi_write dev (ADF4377_REG 0x34) (of_int (mac H ''ADF4377_R034_RSV1'')))
       (\<lambda>ret dev.
     checked H (adf4377_spi_write dev (ADF4377_REG 0x3A) (of_int (mac H ''ADF4377_R03A_RSV1'')))
       (\<lambda>ret dev.
     checked H (adf4377_spi_write dev (ADF4377_REG 0x3B) (of_int (mac H ''ADF4377_R03B_RSV1'')))
       (\<lambda>ret dev.
     adf4377_spi_write dev (ADF4377_REG 0x42) (of_int (mac H ''ADF4377_R042_RSV1'')))))))))))))))))"

subsection \<open>Software reset\<close>

text \<open>The bit \<^verbatim>\<open>ADF4377_SOFT_RESET(ADF4377_SOFT_RESET_EN)\<close> that the poll tests.\<close>

definition soft_reset_bit :: "adf4377_h \<Rightarrow> int" where
  "soft_reset_bit H = macf H ''ADF4377_SOFT_RESET'' (mac H ''ADF4377_SOFT_RESET_EN'')"

text \<open>
  The loop \<^verbatim>\<open>while(timeout) { ... }\<close> of \<^verbatim>\<open>adf4377_soft_reset\<close> (lines 254 to 263).
  Its body reads register 0x00 and returns on a bus error or when the reset bit reads 0;
  it assigns nothing to \<open>timeout\<close>, so the next iteration runs with the same value.
\<close>

partial_function (option) adf4377_soft_reset_poll ::
  "adf4377_h \<Rightarrow> uint16_t \<Rightarrow> uint8_t option \<Rightarrow> 'c adf4377_dev \<Rightarrow>
     (int32_t \<times> 'c adf4377_dev) option" where
  "adf4377_soft_reset_poll H timeout data dev =
     (if timeout \<noteq> 0 then
        (case adf4377_spi_read H dev (ADF4377_REG 0x00) data of
           (ret, data1, dev1) \<Rightarrow>
             if ret \<noteq> SUCCESS H then Some (ret, dev1)
             else if uint (the data1) AND soft_reset_bit H = 0 then Some (SUCCESS H, dev1)
             else adf4377_soft_reset_poll H timeout data1 dev1)
      else Some (FAILURE H, dev))"

definition adf4377_soft_reset ::
  "adf4377_h \<Rightarrow> 'c adf4377_dev \<Rightarrow> (int32_t \<times> 'c adf4377_dev) option" where
  "adf4377_soft_reset H dev =
     (let timeout = (0xFFFF :: uint16_t) in
      checked_opt H
        (adf4377_update H dev (ADF4377_REG 0x00)
           (of_int (mac H ''ADF4377_SOFT_RESET_MSK'' OR mac H ''ADF4377_SOFT_RESET_R_MSK''))
           (of_int (macf H ''ADF4377_SOFT_RESET'' (mac H ''ADF4377_SOFT_RESET_EN'') OR
                    macf H ''ADF4377_SOFT_RESET_R'' (mac H ''ADF4377_SOFT_RESET_EN''))))
        (\<lambda>ret dev. adf4377_soft_reset_poll H timeout None dev))"

subsection \<open>Output frequency\<close>

text \<open>The loop \<^verbatim>\<open>while (dev->f_vco < ADF4377_MIN_VCO_FREQ)\<close> of
  \<^verbatim>\<open>adf4377_set_freq\<close> (lines 283 to 286).\<close>

partial_function (option) adf4377_set_freq_loop ::
  "adf4377_h \<Rightarrow> 'c adf4377_dev \<Rightarrow> 'c adf4377_dev option" where
  "adf4377_set_freq_loop H dev =
     (if f_vco dev < ADF4377_MIN_VCO_FREQ H then
        adf4377_set_freq_loop H
          (dev\<lparr>f_vco := push_bit 1 (f_vco dev), clkout_div_sel := clkout_div_sel dev + 1\<rparr>)
      else Some dev)"

text \<open>
  \<^verbatim>\<open>adf4377_set_freq\<close>. The division by \<^verbatim>\<open>dev->f_pfd\<close> traps when the divisor
  is 0: the call does not return. \<^verbatim>\<open>mdelay(100)\<close> only lets time pass.
\<close>

definition adf4377_set_freq ::
  "adf4377_h \<Rightarrow> 'c adf4377_dev \<Rightarrow> (int32_t \<times> 'c adf4377_dev) option" where
  "adf4377_set_freq H dev =
     (let dev = dev\<lparr>clkout_div_sel := 0\<rparr> in
      if ADF4377_CHECK_RANGE (f_clk dev) (ADF4377_MIN_CLKPN_FREQ H) (ADF4377_MAX_CLKPN_FREQ H)
      then Some (FAILURE H, dev)
      else
        case adf4377_set_freq_loop H (dev\<lparr>f_vco := f_clk dev\<rparr>) of
          None \<Rightarrow> None
        | Some dev \<Rightarrow>
            if f_pfd dev = 0 then None
            else
              let dev = dev\<lparr>n_int := f_clk dev div f_pfd dev\<rparr> in
              checked_opt H
                (adf4377_update H dev (ADF4377_REG 0x11)
                   (of_int (mac H ''ADF4377_EN_RDBLR_MSK'' OR mac H ''ADF4377_N_INT_MSB_MSK''))
                   (of_int (macf H ''ADF4377_EN_RDBLR'' (int (ref_doubler_en dev)) OR
                            macf H ''ADF4377_N_INT_MSB'' (int (drop_bit 8 (n_int dev))))))
                (\<lambda>ret dev.
              checked_opt H
                (adf4377_update H dev (ADF4377_REG 0x12)
                   (of_int (mac H ''ADF4377_R_DIV_MSK'' OR mac H ''ADF4377_CLKOUT_DIV_MSK''))
                   (of_int (macf H ''ADF4377_CLKOUT_DIV'' (int (clkout_div_sel dev)) OR
                            macf H ''ADF4377_R_DIV'' (int (ref_div_factor dev)))))
                (\<lambda>ret dev.
              checked_opt H
                (adf4377_spi_write dev (ADF4377_REG 0x10)
                   (of_int (macf H ''ADF4377_N_INT_LSB'' (int (n_int dev)))))
                (\<lambda>ret dev. Some (ret, dev)))))"

subsection \<open>Setup\<close>

text \<open>The loop \<^verbatim>\<open>do { ... } while (dev->f_pfd > ADF4377_MAX_FREQ_PFD)\<close> of
  \<^verbatim>\<open>adf4377_setup\<close> (lines 368 to 371).\<close>

function adf4377_pfd_loop :: "adf4377_h \<Rightarrow> 'c adf4377_dev \<Rightarrow> 'c adf4377_dev" where
  "adf4377_pfd_loop H dev =
     (let dev = dev\<lparr>ref_div_factor := ref_div_factor dev + 1\<rparr>;
          dev = dev\<lparr>f_pfd := clkin_freq dev div ref_div_factor dev\<rparr>
      in if f_pfd dev > ADF4377_MAX_FREQ_PFD H then adf4377_pfd_loop H dev else dev)"
  by pat_completeness auto
termination
proof (relation "measure (\<lambda>(H, dev). clkin_freq dev - ref_div_factor dev)")
  show "wf (measure (\<lambda>(H :: adf4377_h, dev :: 'c adf4377_dev). clkin_freq dev - ref_div_factor dev))"
    by simp
next
  fix H :: adf4377_h and dev x xa :: "'c adf4377_dev"
  assume x: "x = dev\<lparr>ref_div_factor := ref_div_factor dev + 1\<rparr>"
    and xa: "xa = x\<lparr>f_pfd := clkin_freq x div ref_div_factor x\<rparr>"
    and gt: "ADF4377_MAX_FREQ_PFD H < f_pfd xa"
  from gt x xa have "0 < clkin_freq dev div (ref_div_factor dev + 1)"
    by simp
  then have "ref_div_factor dev + 1 \<le> clkin_freq dev"
    by (simp add: div_greater_zero_iff)
  with x xa show "((H, xa), (H, dev)) \<in> measure (\<lambda>(H, dev). clkin_freq dev - ref_div_factor dev)"
    by simp
qed

text \<open>The block \<^verbatim>\<open>/*Compute PFD */\<close> of \<^verbatim>\<open>adf4377_setup\<close> (lines 366 to 373).\<close>

definition adf4377_compute_pfd :: "adf4377_h \<Rightarrow> 'c adf4377_dev \<Rightarrow> 'c adf4377_dev" where
  "adf4377_compute_pfd H dev =
     (if ref_doubler_en dev = 0 then adf4377_pfd_loop H dev
      else dev\<lparr>f_pfd := clkin_freq dev * (1 + ref_doubler_en dev)\<rparr>)"

text \<open>The locals of \<^verbatim>\<open>adf4377_setup\<close> that size the calibration clocks.\<close>

record adf4377_calib =
  f_div_rclk :: uint32_t
  dclk_div1 :: uint8_t
  dclk_div2 :: uint8_t
  dclk_mode :: uint8_t
  synth_lock_timeout :: uint16_t
  vco_alc_timeout :: uint16_t
  adc_clk_div :: uint16_t
  vco_band_div :: uint16_t

text \<open>The block of \<^verbatim>\<open>adf4377_setup\<close> that computes them from \<^verbatim>\<open>dev->f_pfd\<close>
  (lines 378 to 413).\<close>

definition adf4377_calib_clocks :: "adf4377_h \<Rightarrow> nat \<Rightarrow> adf4377_calib" where
  "adf4377_calib_clocks H pfd =
     (let f0 = (of_nat pfd :: uint32_t);
          (div1, div2, mode, f) =
            (if pfd \<le> ADF4377_FREQ_PFD_80MHZ then
               (ADF4377_DCLK_DIV1_1 H, ADF4377_DCLK_DIV2_1 H, ADF4377_DCLK_MODE_DIS H, f0)
             else if pfd \<le> ADF4377_FREQ_PFD_125MHZ then
               (ADF4377_DCLK_DIV1_1 H, ADF4377_DCLK_DIV2_1 H, ADF4377_DCLK_MODE_EN H, f0)
             else if pfd \<le> ADF4377_FREQ_PFD_160MHZ then
               (ADF4377_DCLK_DIV1_2 H, ADF4377_DCLK_DIV2_1 H, ADF4377_DCLK_MODE_DIS H, f0 div 2)
             else if pfd \<le> ADF4377_FREQ_PFD_250MHZ then
               (ADF4377_DCLK_DIV1_2 H, ADF4377_DCLK_DIV2_1 H, ADF4377_DCLK_MODE_EN H, f0 div 2)
             else if pfd \<le> ADF4377_FREQ_PFD_320MHZ then
               (ADF4377_DCLK_DIV1_2 H, ADF4377_DCLK_DIV2_2 H, ADF4377_DCLK_MODE_DIS H, f0 div 4)
             else
               (ADF4377_DCLK_DIV1_2 H, ADF4377_DCLK_DIV2_2 H, ADF4377_DCLK_MODE_EN H, f0 div 4))
      in \<lparr>f_div_rclk = f, dclk_div1 = div1, dclk_div2 = div2, dclk_mode = mode,
          synth_lock_timeout = of_nat (DIV_ROUND_UP (unat f) 50000),
          vco_alc_timeout = of_nat (DIV_ROUND_UP (unat f) 20000),
          adc_clk_div = of_nat (DIV_ROUND_UP (unat (f div 400000 - 2)) 4),
          vco_band_div = of_nat (DIV_ROUND_UP (unat f) (150000 * 16 * push_bit (unat mode) 1))\<rparr>)"

text \<open>
  \<^verbatim>\<open>adf4377_setup\<close>. The local \<^verbatim>\<open>chip_type\<close> is not initialised and is read only
  after a successful read. The results of the power-up write to register 0x1a and of the
  update that disables the ADC clock are assigned to \<open>ret\<close> and overwritten by the next
  call without a test, as in the source.
\<close>

definition adf4377_setup ::
  "adf4377_h \<Rightarrow> 'c adf4377_dev \<Rightarrow> (int32_t \<times> 'c adf4377_dev) option" where
  "adf4377_setup H dev =
     (let dev = dev\<lparr>ref_div_factor := 0\<rparr> in
      checked_call H (adf4377_soft_reset H dev)
        (\<lambda>ret dev.
      checked_opt H
        (adf4377_spi_write dev (ADF4377_REG 0x00)
           (of_int (macf H ''ADF4377_LSB_FIRST_R'' (int (bit_order (spi_desc dev))) OR
                    macf H ''ADF4377_LSB_FIRST'' (int (bit_order (spi_desc dev))) OR
                    macf H ''ADF4377_SDO_ACTIVE_R'' (of_bool (spi3wire dev)) OR
                    macf H ''ADF4377_SDO_ACTIVE'' (of_bool (spi3wire dev)) OR
                    macf H ''ADF4377_ADDRESS_ASC_R'' (mac H ''ADF4377_ADDR_ASC_AUTO_DECR'') OR
                    macf H ''ADF4377_ADDRESS_ASC'' (mac H ''ADF4377_ADDR_ASC_AUTO_DECR''))))
        (\<lambda>ret dev.
      case adf4377_spi_read H dev (ADF4377_REG 0x03) None of
        (ret, chip_type, dev) \<Rightarrow>
          if ret \<noteq> SUCCESS H then Some (ret, dev)
          else if uint (the chip_type) \<noteq> ADF4377_CHIP_TYPE H then Some (ret, dev)
          else
      checked_opt H (adf4377_check_scratchpad H dev)
        (\<lambda>ret dev.
      checked_opt H (adf4377_set_default H dev)
        (\<lambda>ret dev.
      checked_opt H
        (adf4377_update H dev (ADF4377_REG 0x15)
           (of_int (mac H ''ADF4377_CP_I_MSK''))
           (of_int (macf H ''ADF4377_CP_I'' (int (cp_i dev)))))
        (\<lambda>ret dev.
      let dev = adf4377_compute_pfd H dev in
      if ADF4377_CHECK_RANGE (f_pfd dev) (ADF4377_MIN_FREQ_PFD H) (ADF4377_MAX_FREQ_PFD H)
      then Some (FAILURE H, dev)
      else
      let c = adf4377_calib_clocks H (f_pfd dev) in
      checked_opt H
        (adf4377_update H dev (ADF4377_REG 0x1C)
           (of_int (mac H ''ADF4377_EN_DNCLK_MSK'' OR mac H ''ADF4377_EN_DRCLK_MSK''))
           (of_int (macf H ''ADF4377_EN_DNCLK'' (mac H ''ADF4377_EN_DNCLK_ON'') OR
                    macf H ''ADF4377_EN_DRCLK'' (mac H ''ADF4377_EN_DRCLK_ON''))))
        (\<lambda>ret dev.
      checked_opt H
        (adf4377_update H dev (ADF4377_REG 0x11)
           (of_int (mac H ''ADF4377_EN_AUTOCAL_MSK'' OR mac H ''ADF4377_DCLK_DIV2_MSK''))
           (of_int (macf H ''ADF4377_EN_AUTOCAL'' (mac H ''ADF4377_VCO_CALIB_EN'') OR
                    macf H ''ADF4377_DCLK_DIV2'' (uint (dclk_div2 c)))))
        (\<lambda>ret dev.
      checked_opt H
        (adf4377_update H dev (ADF4377_REG 0x2E)
           (of_int (mac H ''ADF4377_EN_ADC_CNV_MSK'' OR mac H ''ADF4377_EN_ADC_MSK'' OR
                    mac H ''ADF4377_ADC_A_CONV_MSK''))
           (of_int (macf H ''ADF4377_EN_ADC_CNV'' (mac H ''ADF4377_EN_ADC_CNV_EN'') OR
                    macf H ''ADF4377_EN_ADC'' (mac H ''ADF4377_EN_ADC_EN'') OR
                    macf H ''ADF4377_ADC_A_CONV'' (mac H ''ADF4377_ADC_A_CONV_VCO_CALIB''))))
        (\<lambda>ret dev.
      checked_opt H
        (adf4377_update H dev (ADF4377_REG 0x20)
           (of_int (mac H ''ADF4377_EN_ADC_CLK_MSK''))
           (of_int (macf H ''ADF4377_EN_ADC_CLK'' (mac H ''ADF4377_EN_ADC_CLK_EN''))))
        (\<lambda>ret dev.
      checked_opt H
        (adf4377_update H dev (ADF4377_REG 0x2F)
           (of_int (mac H ''ADF4377_DCLK_DIV1_MSK''))
           (of_int (macf H ''ADF4377_DCLK_DIV1'' (uint (dclk_div1 c)))))
        (\<lambda>ret dev.
      checked_opt H
        (adf4377_update H dev (ADF4377_REG 0x24)
           (of_int (mac H ''ADF4377_DCLK_MODE_MSK''))
           (of_int (macf H ''ADF4377_DCLK_MODE'' (uint (dclk_mode c)))))
        (\<lambda>ret dev.
      checked_opt H
        (adf4377_spi_write dev (ADF4377_REG 0x27)
           (of_int (macf H ''ADF4377_SYNTH_LOCK_TO_LSB'' (uint (synth_lock_timeout c)))))
        (\<lambda>ret dev.
      checked_opt H
        (adf4377_update H dev (ADF4377_REG 0x28)
           (of_int (mac H ''ADF4377_SYNTH_LOCK_TO_MSB_MSK''))
           (of_int (macf H ''ADF4377_SYNTH_LOCK_TO_MSB''
                      (uint (drop_bit 8 (synth_lock_timeout c))))))
        (\<lambda>ret dev.
      checked_opt H
        (adf4377_spi_write dev (ADF4377_REG 0x29)
           (of_int (macf H ''ADF4377_VCO_ALC_TO_LSB'' (uint (vco_alc_timeout c)))))
        (\<lambda>ret dev.
      checked_opt H
        (adf4377_update H dev (ADF4377_REG 0x2A)
           (of_int (mac H ''ADF4377_VCO_ALC_TO_MSB_MSK''))
           (of_int (macf H ''ADF4377_VCO_ALC_TO_MSB''
                      (uint (drop_bit 8 (vco_alc_timeout c))))))
        (\<lambda>ret dev.
      checked_opt H
        (adf4377_spi_write dev (ADF4377_REG 0x26)
           (of_int (macf H ''ADF4377_VCO_BAND_DIV'' (uint (vco_band_div c)))))
        (\<lambda>ret dev.
      checked_opt H
        (adf4377_spi_write dev (ADF4377_REG 0x2D)
           (of_int (macf H ''ADF4377_ADC_CLK_DIV'' (uint (adc_clk_div c)))))
        (\<lambda>ret dev.
      case adf4377_spi_write dev (ADF4377_REG 0x1a)
             (of_int (macf H ''ADF4377_PD_ALL'' (mac H ''ADF4377_PD_ALL_N_OP'') OR
                      macf H ''ADF4377_PD_RDIV'' (mac H ''ADF4377_PD_RDIV_N_OP'') OR
                      macf H ''ADF4377_PD_NDIV'' (mac H ''ADF4377_PD_NDIV_N_OP'') OR
                      macf H ''ADF4377_PD_VCO'' (mac H ''ADF4377_PD_VCO_N_OP'') OR
                      macf H ''ADF4377_PD_LD'' (mac H ''ADF4377_PD_LD_N_OP'') OR
                      macf H ''ADF4377_PD_PFDCP'' (mac H ''ADF4377_PD_PFDCP_N_OP'') OR
                      macf H ''ADF4377_PD_CLKOUT1'' (mac H ''ADF4377_PD_CLKOUT1_N_OP'') OR
                      macf H ''ADF4377_PD_CLKOUT2'' (mac H ''ADF4377_PD_CLKOUT2_N_OP''))) of
        (ret, dev) \<Rightarrow>
      checked_call H (adf4377_set_freq H dev)
        (\<lambda>ret dev.
      checked_opt H
        (adf4377_update H dev (ADF4377_REG 0x1C)
           (of_int (mac H ''ADF4377_EN_DNCLK_MSK'' OR mac H ''ADF4377_EN_DRCLK_MSK''))
           (of_int (macf H ''ADF4377_EN_DNCLK'' (mac H ''ADF4377_EN_DNCLK_OFF'') OR
                    macf H ''ADF4377_EN_DRCLK'' (mac H ''ADF4377_EN_DRCLK_OFF''))))
        (\<lambda>ret dev.
      case adf4377_update H dev (ADF4377_REG 0x20)
             (of_int (mac H ''ADF4377_EN_ADC_CLK_MSK''))
             (of_int (macf H ''ADF4377_EN_ADC_CLK'' (mac H ''ADF4377_EN_ADC_CLK_DIS''))) of
        (ret, dev) \<Rightarrow>
      case adf4377_update H dev (ADF4377_REG 0x19)
             (of_int (mac H ''ADF4377_CLKOUT2_OP_MSK'' OR mac H ''ADF4377_CLKOUT1_OP_MSK''))
             (of_int (macf H ''ADF4377_CLKOUT1_OP'' (int (clkout_op dev)) OR
                      macf H ''ADF4377_CLKOUT2_OP'' (int (clkout_op dev)))) of
        (ret, dev) \<Rightarrow> Some (ret, dev)))))))))))))))))))))"

subsection \<open>Initialisation\<close>

text \<open>
  Modelled from the spec: the platform services \<^verbatim>\<open>adf4377_init\<close> calls, which are not
  part of the sources (section 6, GPIO contract; section 4.9): \<^verbatim>\<open>calloc\<close> and
  \<^verbatim>\<open>free\<close>, \<^verbatim>\<open>gpio_get_optional\<close>, \<^verbatim>\<open>gpio_direction_output\<close>,
  \<^verbatim>\<open>gpio_remove\<close>, \<^verbatim>\<open>spi_init\<close> and \<^verbatim>\<open>spi_remove\<close>. The record \<open>platform\<close> says
  how each call on a real line ends. A \<^verbatim>\<open>NULL\<close> parameter yields a handle that is
  absent and accepts every call without effect. The event list records what was acquired
  and what was released, oldest first.
\<close>

datatype resource = Memory | Gpio nat | Spi

datatype event = Acquire resource | Release resource

record platform =
  calloc_ok :: bool
  gpio_get_ret :: "nat \<Rightarrow> int32_t"
  gpio_out_ret :: "nat \<Rightarrow> int32_t"
  spi_init_ret :: int32_t

definition gpio_get_optional ::
  "adf4377_h \<Rightarrow> platform \<Rightarrow> gpio_desc \<Rightarrow> event list \<Rightarrow> int32_t \<times> gpio_desc \<times> event list" where
  "gpio_get_optional H P param log =
     (case param of
        None \<Rightarrow> (SUCCESS H, None, log)
      | Some g \<Rightarrow>
          if gpio_get_ret P g \<noteq> SUCCESS H then (gpio_get_ret P g, None, log)
          else (SUCCESS H, Some g, log @ [Acquire (Gpio g)]))"

definition gpio_direction_output :: "adf4377_h \<Rightarrow> platform \<Rightarrow> gpio_desc \<Rightarrow> int32_t" where
  "gpio_direction_output H P desc = (case desc of None \<Rightarrow> SUCCESS H | Some g \<Rightarrow> gpio_out_ret P g)"

definition gpio_remove :: "gpio_desc \<Rightarrow> event list \<Rightarrow> event list" where
  "gpio_remove desc log = (case desc of None \<Rightarrow> log | Some g \<Rightarrow> log @ [Release (Gpio g)])"

definition spi_init :: "adf4377_h \<Rightarrow> platform \<Rightarrow> event list \<Rightarrow> int32_t \<times> event list" where
  "spi_init H P log =
     (if spi_init_ret P \<noteq> SUCCESS H then (spi_init_ret P, log)
      else (SUCCESS H, log @ [Acquire Spi]))"

definition spi_remove :: "event list \<Rightarrow> event list" where
  "spi_remove log = log @ [Release Spi]"

definition free :: "event list \<Rightarrow> event list" where
  "free log = log @ [Release Memory]"

text \<open>Modelled from the spec: \<^verbatim>\<open>struct adf4377_init_param\<close> of \<^verbatim>\<open>adf4377.h\<close>, with
  the members \<^verbatim>\<open>adf4377_init\<close> reads. \<open>spi_init_param\<close> is the descriptor a successful
  \<^verbatim>\<open>spi_init\<close> yields, the member \<^verbatim>\<open>spi_init\<close> of the C structure.\<close>

record 'c adf4377_init_param =
  spi_init_param :: "'c spi_desc"
  gpio_ce_param :: gpio_desc
  gpio_enclk1_param :: gpio_desc
  gpio_enclk2_param :: gpio_desc
  ip_spi3wire :: bool
  ip_clkin_freq :: nat
  ip_cp_i :: nat
  muxout_select :: nat
  ip_ref_doubler_en :: nat
  ip_f_clk :: nat
  ip_clkout_op :: nat

text \<open>The labels at the end of \<^verbatim>\<open>adf4377_init\<close> (lines 577 to 592); each falls
  through to the next.\<close>

definition error_dev :: "event list \<Rightarrow> event list" where
  "error_dev log = free log"

definition error_gpio_ce :: "gpio_desc \<Rightarrow> event list \<Rightarrow> event list" where
  "error_gpio_ce ce log = error_dev (gpio_remove ce log)"

definition error_gpio_enclk1 :: "gpio_desc \<Rightarrow> gpio_desc \<Rightarrow> event list \<Rightarrow> event list" where
  "error_gpio_enclk1 enclk1 ce log = error_gpio_ce ce (gpio_remove enclk1 log)"

definition error_gpio_enclk2 ::
  "gpio_desc \<Rightarrow> gpio_desc \<Rightarrow> gpio_desc \<Rightarrow> event list \<Rightarrow> event list" where
  "error_gpio_enclk2 enclk2 enclk1 ce log = error_gpio_enclk1 enclk1 ce (gpio_remove enclk2 log)"

definition error_spi ::
  "gpio_desc \<Rightarrow> gpio_desc \<Rightarrow> gpio_desc \<Rightarrow> event list \<Rightarrow> event list" where
  "error_spi enclk2 enclk1 ce log = error_gpio_enclk2 enclk2 enclk1 ce (spi_remove log)"

text \<open>
  The structure \<^verbatim>\<open>adf4377_init\<close> hands to \<^verbatim>\<open>adf4377_setup\<close>: \<^verbatim>\<open>calloc\<close> has
  zeroed it, lines 531 to 537 have copied the parameters, and the descriptors are those
  acquired.
\<close>

definition adf4377_dev_of ::
  "'c adf4377_init_param \<Rightarrow> gpio_desc \<Rightarrow> gpio_desc \<Rightarrow> gpio_desc \<Rightarrow> 'c adf4377_dev" where
  "adf4377_dev_of init_param ce enclk1 enclk2 =
     \<lparr>spi_desc = spi_init_param init_param,
      gpio_ce = ce, gpio_enclk1 = enclk1, gpio_enclk2 = enclk2,
      spi3wire = ip_spi3wire init_param, clkin_freq = ip_clkin_freq init_param,
      cp_i = ip_cp_i init_param, muxout_default = muxout_select init_param,
      ref_doubler_en = ip_ref_doubler_en init_param, f_pfd = 0,
      f_clk = ip_f_clk init_param, f_vco = 0, n_int = 0, clkout_div_sel = 0,
      ref_div_factor = 0, clkout_op = ip_clkout_op init_param\<rparr>"

text \<open>
  \<^verbatim>\<open>adf4377_init\<close>. The result is the returned code, the handle stored through
  \<^verbatim>\<open>*device\<close> (\<open>None\<close> when nothing is stored) and the events of the call.
\<close>

definition adf4377_init ::
  "adf4377_h \<Rightarrow> platform \<Rightarrow> 'c adf4377_init_param \<Rightarrow>
     (int32_t \<times> 'c adf4377_dev option \<times> event list) option" where
  "adf4377_init H P init_param =
     (if \<not> calloc_ok P then Some (- ENOMEM H, None, [])
      else
        let log = [Acquire Memory] in
        case gpio_get_optional H P (gpio_ce_param init_param) log of
          (ret, ce, log) \<Rightarrow>
        if ret \<noteq> SUCCESS H then Some (ret, None, error_dev log)
        else
        let ret = gpio_direction_output H P ce in
        if ret \<noteq> SUCCESS H then Some (ret, None, error_gpio_ce ce log)
        else
        case gpio_get_optional H P (gpio_enclk1_param init_param) log of
          (ret, enclk1, log) \<Rightarrow>
        if ret \<noteq> SUCCESS H then Some (ret, None, error_gpio_ce ce log)
        else
        let ret = gpio_direction_output H P enclk1 in
        if ret \<noteq> SUCCESS H then Some (ret, None, error_gpio_enclk1 enclk1 ce log)
        else
        case gpio_get_optional H P (gpio_enclk2_param init_param) log of
          (ret, enclk2, log) \<Rightarrow>
        if ret \<noteq> SUCCESS H then Some (ret, None, error_gpio_enclk1 enclk1 ce log)
        else
        let ret = gpio_direction_output H P enclk2 in
        if ret \<noteq> SUCCESS H then Some (ret, None, error_gpio_enclk2 enclk2 enclk1 ce log)
        else
        case spi_init H P log of
          (ret, log) \<Rightarrow>
        if ret \<noteq> SUCCESS H then Some (ret, None, error_gpio_enclk2 enclk2 enclk1 ce log)
        else
        (case adf4377_setup H (adf4377_dev_of init_param ce enclk1 enclk2) of
           None \<Rightarrow> None
         | Some (ret, dev) \<Rightarrow>
             if ret \<noteq> SUCCESS H then Some (ret, None, error_spi enclk2 enclk1 ce log)
             else Some (ret, Some dev, log)))"

subsection \<open>The lifecycle in the specification's words\<close>

text \<open>
  Section 4.9: "Acquire in order: chip-enable GPIO (drive high), enclk1 GPIO (high), enclk2
  GPIO (high), SPI bus, then run setup. On any failure, roll back exactly the resources
  acquired so far, in reverse order, and return the original error."

  The steps of the acquisition, in order, each with the resource it acquires on success
  (if any) and the code the platform ends it with. A GPIO whose parameter is absent takes
  no step.
\<close>

definition gpio_steps :: "platform \<Rightarrow> gpio_desc \<Rightarrow> (resource option \<times> int32_t) list" where
  "gpio_steps P param =
     (case param of
        None \<Rightarrow> []
      | Some g \<Rightarrow> [(Some (Gpio g), gpio_get_ret P g), (None, gpio_out_ret P g)])"

definition init_steps ::
  "platform \<Rightarrow> 'c adf4377_init_param \<Rightarrow> (resource option \<times> int32_t) list" where
  "init_steps P init_param =
     gpio_steps P (gpio_ce_param init_param) @
     gpio_steps P (gpio_enclk1_param init_param) @
     gpio_steps P (gpio_enclk2_param init_param) @
     [(Some Spi, spi_init_ret P)]"

text \<open>Running the steps with the resources \<open>held\<close> so far: the code of the first step
  that fails and what is held at that point, or \<open>ok\<close> and everything.\<close>

fun acquire_all ::
  "int32_t \<Rightarrow> (resource option \<times> int32_t) list \<Rightarrow> resource list \<Rightarrow> int32_t \<times> resource list" where
  "acquire_all ok [] held = (ok, held)"
| "acquire_all ok ((r, c) # steps) held =
     (if c \<noteq> ok then (c, held)
      else acquire_all ok steps (case r of None \<Rightarrow> held | Some x \<Rightarrow> held @ [x]))"

text \<open>The events of a failed initialisation that held \<open>held\<close>: every acquisition, then
  every release, last acquired first.\<close>

definition rolled_back :: "resource list \<Rightarrow> event list" where
  "rolled_back held = map Acquire held @ map Release (rev held)"

subsection \<open>A mock bus for the concrete scenarios\<close>

text \<open>
  A header for the scenarios of section 8 of the specification: the maximal PFD frequency
  of scenario S1 (250 MHz), the minimal VCO frequency of scenario S3 (4 GHz), the sentinel
  0xA5 of section 4.2; the soft-reset bit is bit 0 of register 0x00, and every other
  register-field macro yields 0. The remaining values are a choice.
\<close>

definition scenario_h :: adf4377_h where
  "scenario_h =
     \<lparr>SUCCESS = 0, FAILURE = - 1, ENOMEM = 12,
      ADF4377_SPI_SCRATCHPAD = 0xA5, ADF4377_CHIP_TYPE = 0x06,
      ADF4377_MIN_VCO_FREQ = 4000000000,
      ADF4377_MAX_CLKPN_FREQ = 8000000000, ADF4377_MIN_CLKPN_FREQ = 500000000,
      ADF4377_MAX_FREQ_PFD = 250000000, ADF4377_MIN_FREQ_PFD = 3000000,
      ADF4377_DCLK_DIV1_1 = 0, ADF4377_DCLK_DIV1_2 = 1,
      ADF4377_DCLK_DIV2_1 = 0, ADF4377_DCLK_DIV2_2 = 1,
      ADF4377_DCLK_MODE_DIS = 0, ADF4377_DCLK_MODE_EN = 1,
      mac = (\<lambda>n. if n = ''ADF4377_SOFT_RESET_EN'' then 1 else 0),
      macf = (\<lambda>n x. if n = ''ADF4377_SOFT_RESET'' then x AND 1 else 0)\<rparr>"

text \<open>
  The mock chip counts the transfers it has seen. Transfer number \<open>fail\<close> (counted from
  0) ends with the error code -5, every other one with 0. The third received byte of a
  read (an MSB-first frame whose first byte is the read command) is \<open>regs\<close> at the
  address; everything else received is 0.
\<close>

definition mock_transfer ::
  "nat option \<Rightarrow> (uint8_t \<Rightarrow> uint8_t) \<Rightarrow> nat \<Rightarrow> buff \<Rightarrow> int32_t \<times> buff \<times> nat" where
  "mock_transfer fail regs n b =
     (case b of (b0, b1, b2) \<Rightarrow>
        (if fail = Some n then - 5 else 0,
         (0, 0, if b0 = ADF4377_SPI_READ_CMD then regs b1 else 0),
         n + 1))"

text \<open>A chip that answers as setup expects: the reset bit reads 0, register 0x03 reads
  the chip type and register 0x0A the sentinel.\<close>

definition good_regs :: "uint8_t \<Rightarrow> uint8_t" where
  "good_regs a = (if a = 0x03 then 0x06 else if a = 0x0A then 0xA5 else 0)"

text \<open>A chip whose register 0x03 reads 0x07, which is not the expected chip type.\<close>

definition wrong_chip_regs :: "uint8_t \<Rightarrow> uint8_t" where
  "wrong_chip_regs a = (if a = 0x03 then 0x07 else if a = 0x0A then 0xA5 else 0)"

text \<open>A chip whose reset bit never clears: register 0x00 always reads 0x01.\<close>

definition stuck_regs :: "uint8_t \<Rightarrow> uint8_t" where
  "stuck_regs a = (if a = 0x00 then 0x01 else good_regs a)"

text \<open>A device on the mock bus with the inputs of scenarios S1 and S3: a reference clock
  of 100 MHz, the doubler off, a requested output of 1 GHz.\<close>

definition mock_dev :: "nat \<Rightarrow> nat option \<Rightarrow> (uint8_t \<Rightarrow> uint8_t) \<Rightarrow> nat adf4377_dev" where
  "mock_dev order fail regs =
     \<lparr>spi_desc = \<lparr>bit_order = order, transfer = mock_transfer fail regs, chip = 0, sent = []\<rparr>,
      gpio_ce = None, gpio_enclk1 = None, gpio_enclk2 = None,
      spi3wire = False, clkin_freq = 100000000, cp_i = 0, muxout_default = 0,
      ref_doubler_en = 0, f_pfd = 0, f_clk = 1000000000, f_vco = 0, n_int = 0,
      clkout_div_sel = 0, ref_div_factor = 0, clkout_op = 0\<rparr>"

text \<open>The same inputs as parameters of \<^verbatim>\<open>adf4377_init\<close>, with the three GPIO lines
  1, 2 and 3; and a platform on which \<^verbatim>\<open>spi_init\<close> ends with the code \<open>spi\<close> and every
  other service succeeds.\<close>

definition mock_init_param :: "nat option \<Rightarrow> (uint8_t \<Rightarrow> uint8_t) \<Rightarrow> nat adf4377_init_param" where
  "mock_init_param fail regs =
     \<lparr>spi_init_param = spi_desc (mock_dev 0 fail regs),
      gpio_ce_param = Some 1, gpio_enclk1_param = Some 2, gpio_enclk2_param = Some 3,
      ip_spi3wire = False, ip_clkin_freq = 100000000, ip_cp_i = 0, muxout_select = 0,
      ip_ref_doubler_en = 0, ip_f_clk = 1000000000, ip_clkout_op = 0\<rparr>"

definition mock_platform :: "int32_t \<Rightarrow> platform" where
  "mock_platform spi =
     \<lparr>calloc_ok = True, gpio_get_ret = (\<lambda>g. 0), gpio_out_ret = (\<lambda>g. 0), spi_init_ret = spi\<rparr>"

text \<open>The bytes of a buffer, each changed by \<open>f\<close>.\<close>

definition map_buff :: "(uint8_t \<Rightarrow> uint8_t) \<Rightarrow> buff \<Rightarrow> buff" where
  "map_buff f b = (case b of (b0, b1, b2) \<Rightarrow> (f b0, f b1, f b2))"

section \<open>Properties\<close>

subsection \<open>Register access\<close>

text \<open>\<open>bit_swap_constant_8\<close> reverses the eight bits, and undoes itself.\<close>

lemma bit_swap_constant_8_bit:
  "bit (bit_swap_constant_8 x) n \<longleftrightarrow> n < 8 \<and> bit x (7 - n)"
proof (cases "n < 8")
  case False
  then show ?thesis
    by (auto dest: bit_imp_le_length)
next
  case True
  then consider "n = 0" | "n = 1" | "n = 2" | "n = 3" | "n = 4" | "n = 5" | "n = 6" | "n = 7"
    by linarith
  moreover have "bit (y * 2) m \<longleftrightarrow> bit (2 * y) m" for y :: uint8_t and m
    by (simp add: mult.commute)
  ultimately show ?thesis
    by cases (simp_all add: bit_swap_constant_8_def bit_simps)
qed

lemma bit_swap_constant_8_involution: "bit_swap_constant_8 (bit_swap_constant_8 x) = x"
  by (rule bit_word_eqI) (auto simp add: bit_swap_constant_8_bit)

text \<open>A successful \<^verbatim>\<open>adf4377_spi_read\<close> leaves an assigned byte: the callers, which
  read their local through \<open>the\<close> after a success only, never read an unassigned one.\<close>

lemma adf4377_spi_read_assigns:
  assumes "adf4377_spi_read H dev reg_addr data = (SUCCESS H, data', dev')"
  shows "\<exists>b. data' = Some b"
  using assms by (auto simp add: adf4377_spi_read_def split: prod.splits if_splits)

text \<open>The definitions that evaluate a register access on the mock bus.\<close>

lemmas reg_eval = adf4377_spi_read_def adf4377_spi_write_def spi_write_and_read_def
  adf4377_spi_read_buff_def adf4377_spi_write_buff_def
  ADF4377_SPI_READ_CMD_def ADF4377_SPI_WRITE_CMD_def ADF4377_SPI_DUMMY_DATA_def
  mock_dev_def mock_transfer_def good_regs_def scenario_h_def

text \<open>
  Claim C10. Whatever code the bus transfer of \<^verbatim>\<open>adf4377_spi_read\<close> ends with is
  returned unchanged. When it is not \<open>SUCCESS\<close>, the caller's output byte keeps the
  content it had before the call; it is assigned, from the third received byte, only when
  the transfer succeeds.
\<close>

theorem spi_read_failure_keeps_data:
  assumes "transfer (spi_desc dev) (chip (spi_desc dev))
             (adf4377_spi_read_buff (bit_order (spi_desc dev)) reg_addr) = (ret, (b0, b1, b2), c)"
  shows "adf4377_spi_read H dev reg_addr data =
           (ret, (if ret \<noteq> SUCCESS H then data else Some b2),
            dev\<lparr>spi_desc := (spi_desc dev)\<lparr>chip := c,
              sent := sent (spi_desc dev) @
                [adf4377_spi_read_buff (bit_order (spi_desc dev)) reg_addr]\<rparr>\<rparr>)"
  using assms by (simp add: adf4377_spi_read_def spi_write_and_read_def)

text \<open>On the mock bus whose first transfer fails, a read of register 0x0A into a byte
  that holds 0x42 returns -5 and leaves 0x42.\<close>

theorem spi_read_failure_keeps_data_witness:
  "adf4377_spi_read scenario_h (mock_dev 0 (Some 0) good_regs) 0x0A (Some 0x42) =
     (- 5, Some 0x42,
      (mock_dev 0 (Some 0) good_regs)\<lparr>spi_desc :=
         (spi_desc (mock_dev 0 (Some 0) good_regs))\<lparr>chip := 1, sent := [(0x80, 0x0A, 0)]\<rparr>\<rparr>)"
  using spi_read_failure_keeps_data [of "mock_dev 0 (Some 0) good_regs" "0x0A" "- 5" 0 0 0 1
      scenario_h "Some 0x42"]
  by (simp add: reg_eval)

text \<open>
  Claim C9. \<^verbatim>\<open>adf4377_update(dev, addr, mask, data)\<close> hands the bus one read of
  \<open>addr\<close>; when the read fails, nothing else is sent and the read's code is returned;
  otherwise exactly one write to \<open>addr\<close> follows, whose data byte is
  \<open>(read_value & ~mask) | data\<close> for the byte \<open>read_value\<close> that the read received,
  and the write's code is returned.
\<close>

theorem update_read_modify_write:
  assumes "transfer (spi_desc dev) (chip (spi_desc dev))
             (adf4377_spi_read_buff (bit_order (spi_desc dev)) reg_addr) = (r1, (a0, a1, a2), c1)"
    and "transfer (spi_desc dev) c1
             (adf4377_spi_write_buff (bit_order (spi_desc dev)) reg_addr
                ((a2 AND NOT msk) OR data)) = (r2, rx2, c2)"
  shows "adf4377_update H dev reg_addr msk data =
           (if r1 \<noteq> SUCCESS H
            then (r1, dev\<lparr>spi_desc := (spi_desc dev)\<lparr>chip := c1,
                    sent := sent (spi_desc dev) @
                      [adf4377_spi_read_buff (bit_order (spi_desc dev)) reg_addr]\<rparr>\<rparr>)
            else (r2, dev\<lparr>spi_desc := (spi_desc dev)\<lparr>chip := c2,
                    sent := sent (spi_desc dev) @
                      [adf4377_spi_read_buff (bit_order (spi_desc dev)) reg_addr,
                       adf4377_spi_write_buff (bit_order (spi_desc dev)) reg_addr
                         ((a2 AND NOT msk) OR data)]\<rparr>\<rparr>))"
  using assms
  by (simp add: adf4377_update_def adf4377_spi_read_def adf4377_spi_write_def
      spi_write_and_read_def)

text \<open>On the mock bus register 0x0A reads 0xA5; updating it under the mask 0x0F with
  0x03 sends a read and then a write of 0xA3.\<close>

theorem update_read_modify_write_witness:
  "adf4377_update scenario_h (mock_dev 0 None good_regs) 0x0A 0x0F 0x03 =
     (0, (mock_dev 0 None good_regs)\<lparr>spi_desc :=
            (spi_desc (mock_dev 0 None good_regs))\<lparr>chip := 2,
               sent := [(0x80, 0x0A, 0x00), (0x00, 0x0A, 0xA3)]\<rparr>\<rparr>)"
  using update_read_modify_write [of "mock_dev 0 None good_regs" "0x0A" 0 0 0 "0xA5" 1
      "0x0F" "0x03" 0 "(0, 0, 0)" 2 scenario_h]
  by (simp add: reg_eval)

text \<open>
  Claim C3, as stated: the buffer \<^verbatim>\<open>adf4377_spi_write\<close> sends on an LSB-first bus is,
  byte position by byte position, the bit-reversed buffer of an MSB-first bus. It fails
  for the address 0x01 and the data 0x00: the MSB-first buffer is \<open>(0x00, 0x01, 0x00)\<close>,
  its bytewise reversal \<open>(0x00, 0x80, 0x00)\<close>, and the LSB-first buffer
  \<open>(0x80, 0x00, 0x00)\<close>.
\<close>

theorem spi_write_lsb_first_counterexample:
  "sent (spi_desc (snd (adf4377_spi_write (mock_dev 1 None good_regs) 0x01 0x00))) \<noteq>
   map (map_buff bit_swap_constant_8)
     (sent (spi_desc (snd (adf4377_spi_write (mock_dev 0 None good_regs) 0x01 0x00))))"
  by (simp add: reg_eval map_buff_def bit_swap_constant_8_def)

text \<open>
  Claim C3, amended. On an MSB-first bus \<^verbatim>\<open>adf4377_spi_write\<close> sends the command in
  byte 0, the address in byte 1 and the data in byte 2. On an LSB-first bus every byte is
  bit-reversed and the first two change places: byte 0 is the reversed address, byte 1
  the reversed command, byte 2 the reversed data.
\<close>

theorem spi_write_bit_order:
  assumes "bit_order (spi_desc dev_msb) = 0" and "bit_order (spi_desc dev_lsb) \<noteq> 0"
  shows "sent (spi_desc (snd (adf4377_spi_write dev_msb reg_addr data))) =
           sent (spi_desc dev_msb) @ [(ADF4377_SPI_WRITE_CMD, reg_addr, data)] \<and>
         sent (spi_desc (snd (adf4377_spi_write dev_lsb reg_addr data))) =
           sent (spi_desc dev_lsb) @
             [(bit_swap_constant_8 reg_addr, bit_swap_constant_8 ADF4377_SPI_WRITE_CMD,
               bit_swap_constant_8 data)]"
  using assms
  by (simp add: adf4377_spi_write_def spi_write_and_read_def adf4377_spi_write_buff_def
      split: prod.splits)

theorem spi_write_bit_order_witness:
  "sent (spi_desc (snd (adf4377_spi_write (mock_dev 0 None good_regs) 0x01 0x02))) =
     [(0x00, 0x01, 0x02)] \<and>
   sent (spi_desc (snd (adf4377_spi_write (mock_dev 1 None good_regs) 0x01 0x02))) =
     [(0x80, 0x00, 0x40)]"
  using spi_write_bit_order [of "mock_dev 0 None good_regs" "mock_dev 1 None good_regs"
      "0x01" "0x02"]
  by (simp add: mock_dev_def ADF4377_SPI_WRITE_CMD_def bit_swap_constant_8_def)

subsection \<open>The PFD solver\<close>

text \<open>
  The loop of the solver, started when no positive divider up to \<open>ref_div_factor\<close> brings
  the quotient down to the maximum: it stops at the first divider that does, and stores
  that divider and its quotient.
\<close>

lemma adf4377_pfd_loop_spec:
  assumes "\<forall>r. 0 < r \<and> r \<le> ref_div_factor dev \<longrightarrow>
             ADF4377_MAX_FREQ_PFD H < clkin_freq dev div r"
  shows "\<exists>R. ref_div_factor dev < R \<and>
           adf4377_pfd_loop H dev = dev\<lparr>ref_div_factor := R, f_pfd := clkin_freq dev div R\<rparr> \<and>
           clkin_freq dev div R \<le> ADF4377_MAX_FREQ_PFD H \<and>
           (\<forall>r. 0 < r \<and> r < R \<longrightarrow> ADF4377_MAX_FREQ_PFD H < clkin_freq dev div r)"
  using assms
proof (induction H dev rule: adf4377_pfd_loop.induct)
  case (1 H dev)
  let ?R = "ref_div_factor dev + 1"
  let ?d = "dev\<lparr>ref_div_factor := ?R, f_pfd := clkin_freq dev div ?R\<rparr>"
  show ?case
  proof (cases "clkin_freq dev div ?R > ADF4377_MAX_FREQ_PFD H")
    case True
    have inv: "\<forall>r. 0 < r \<and> r \<le> ref_div_factor ?d \<longrightarrow>
                 ADF4377_MAX_FREQ_PFD H < clkin_freq ?d div r"
    proof (intro allI impI)
      fix r assume "0 < r \<and> r \<le> ref_div_factor ?d"
      then have "r \<le> ref_div_factor dev \<or> r = ?R" by auto
      with True "1.prems" \<open>0 < r \<and> r \<le> ref_div_factor ?d\<close>
      show "ADF4377_MAX_FREQ_PFD H < clkin_freq ?d div r" by auto
    qed
    have "\<exists>R. ref_div_factor ?d < R \<and>
           adf4377_pfd_loop H ?d = ?d\<lparr>ref_div_factor := R, f_pfd := clkin_freq ?d div R\<rparr> \<and>
           clkin_freq ?d div R \<le> ADF4377_MAX_FREQ_PFD H \<and>
           (\<forall>r. 0 < r \<and> r < R \<longrightarrow> ADF4377_MAX_FREQ_PFD H < clkin_freq ?d div r)"
      using "1.IH" [OF refl refl] True inv by simp
    then obtain R where R: "ref_div_factor ?d < R"
      "adf4377_pfd_loop H ?d = ?d\<lparr>ref_div_factor := R, f_pfd := clkin_freq ?d div R\<rparr>"
      "clkin_freq ?d div R \<le> ADF4377_MAX_FREQ_PFD H"
      "\<forall>r. 0 < r \<and> r < R \<longrightarrow> ADF4377_MAX_FREQ_PFD H < clkin_freq ?d div r"
      by blast
    have "adf4377_pfd_loop H dev = adf4377_pfd_loop H ?d"
      using True by (subst adf4377_pfd_loop.simps) (simp add: Let_def)
    with R show ?thesis
      by (intro exI [of _ R]) simp
  next
    case False
    have "adf4377_pfd_loop H dev = ?d"
      using False by (subst adf4377_pfd_loop.simps) (simp add: Let_def)
    moreover have "\<forall>r. 0 < r \<and> r < ?R \<longrightarrow> ADF4377_MAX_FREQ_PFD H < clkin_freq dev div r"
      using "1.prems" by auto
    ultimately show ?thesis
      using False by (intro exI [of _ ?R]) simp
  qed
qed

text \<open>
  Claim C6. With the reference doubler disabled, and the divider 0 as
  \<^verbatim>\<open>adf4377_setup\<close> sets it on entry, the solver leaves in \<open>ref_div_factor\<close> the
  smallest positive \<open>R\<close> with \<open>clkin_freq / R \<le> ADF4377_MAX_FREQ_PFD\<close> (truncating
  division), and in \<open>f_pfd\<close> the quotient \<open>clkin_freq / ref_div_factor\<close>.
\<close>

theorem compute_pfd_least_divider:
  assumes "ref_doubler_en dev = 0" and "ref_div_factor dev = 0"
  shows "ref_div_factor (adf4377_compute_pfd H dev) =
           (LEAST R. 0 < R \<and> clkin_freq dev div R \<le> ADF4377_MAX_FREQ_PFD H) \<and>
         f_pfd (adf4377_compute_pfd H dev) =
           clkin_freq dev div ref_div_factor (adf4377_compute_pfd H dev)"
proof -
  from adf4377_pfd_loop_spec [of dev H] assms(2)
  obtain R where R: "0 < R"
    "adf4377_pfd_loop H dev = dev\<lparr>ref_div_factor := R, f_pfd := clkin_freq dev div R\<rparr>"
    "clkin_freq dev div R \<le> ADF4377_MAX_FREQ_PFD H"
    "\<forall>r. 0 < r \<and> r < R \<longrightarrow> ADF4377_MAX_FREQ_PFD H < clkin_freq dev div r"
    by auto
  have "(LEAST R. 0 < R \<and> clkin_freq dev div R \<le> ADF4377_MAX_FREQ_PFD H) = R"
  proof (rule Least_equality)
    show "0 < R \<and> clkin_freq dev div R \<le> ADF4377_MAX_FREQ_PFD H"
      using R by simp
  next
    fix y assume "0 < y \<and> clkin_freq dev div y \<le> ADF4377_MAX_FREQ_PFD H"
    with R(4) show "R \<le> y"
      by (meson not_le)
  qed
  with R assms(1) show ?thesis
    by (simp add: adf4377_compute_pfd_def)
qed

text \<open>Scenario S2: a reference of 500 MHz under a maximum of 250 MHz gives the divider 2
  and a PFD frequency of 250 MHz.\<close>

theorem compute_pfd_least_divider_witness:
  "ref_div_factor (adf4377_compute_pfd scenario_h
      ((mock_dev 0 None good_regs)\<lparr>clkin_freq := 500000000\<rparr>)) = 2 \<and>
   (LEAST R. 0 < R \<and> (500000000 :: nat) div R \<le> 250000000) = 2 \<and>
   f_pfd (adf4377_compute_pfd scenario_h
      ((mock_dev 0 None good_regs)\<lparr>clkin_freq := 500000000\<rparr>)) = 250000000"
  using compute_pfd_least_divider [of "(mock_dev 0 None good_regs)\<lparr>clkin_freq := 500000000\<rparr>"
      scenario_h]
  by (simp add: mock_dev_def scenario_h_def adf4377_compute_pfd_def Let_def
      numeral_2_eq_2 [symmetric])

subsection \<open>The calibration clocks\<close>

text \<open>\<open>DIV_ROUND_UP\<close> is the ceiling of the quotient: the least \<open>q\<close> with
  \<open>x \<le> q * y\<close>.\<close>

lemma DIV_ROUND_UP_least:
  assumes "0 < y"
  shows "DIV_ROUND_UP x y = (LEAST q. x \<le> q * y)"
proof (rule Least_equality [symmetric])
  have "(x + y - 1) div y * y + (x + y - 1) mod y = x + y - 1"
    by (rule div_mult_mod_eq)
  moreover have "(x + y - 1) mod y < y"
    using assms by simp
  ultimately show "x \<le> DIV_ROUND_UP x y * y"
    unfolding DIV_ROUND_UP_def by linarith
next
  fix q assume "x \<le> q * y"
  then have "x + y - 1 < (q + 1) * y"
    using assms by (simp add: algebra_simps)
  then have "(x + y - 1) div y < q + 1"
    using assms by (simp add: div_less_iff_less_mult)
  then show "DIV_ROUND_UP x y \<le> q"
    by (simp add: DIV_ROUND_UP_def)
qed

text \<open>
  Claim C8. Scenario S1: with a reference of 100 MHz, the doubler off and a maximal PFD
  frequency of 250 MHz (the code of "mode on" being 1, as the factor \<open>1 << MODE = 2\<close> of
  the scenario says), the solver gives \<open>R = 1\<close> and \<open>f_pfd = 100 MHz\<close>, and the sizer
  takes the row "up to 125 MHz": \<^verbatim>\<open>DCLK_DIV1_1\<close>, \<^verbatim>\<open>DCLK_DIV2_1\<close>, mode on,
  \<open>f_div_rclk = 100000000\<close>, and the timeouts 2000 and 5000, the band divider 21 and the
  ADC clock divider 62, each the ceiling quotient of the formula of section 4.6.
\<close>

theorem scenario_S1_calibration:
  assumes "clkin_freq dev = 100000000" and "ref_doubler_en dev = 0" and "ref_div_factor dev = 0"
    and "ADF4377_MAX_FREQ_PFD H = 250000000" and "ADF4377_DCLK_MODE_EN H = 1"
  shows "ref_div_factor (adf4377_compute_pfd H dev) = 1 \<and>
         f_pfd (adf4377_compute_pfd H dev) = 100000000 \<and>
         adf4377_calib_clocks H (f_pfd (adf4377_compute_pfd H dev)) =
           \<lparr>f_div_rclk = 100000000,
            dclk_div1 = ADF4377_DCLK_DIV1_1 H, dclk_div2 = ADF4377_DCLK_DIV2_1 H,
            dclk_mode = ADF4377_DCLK_MODE_EN H,
            synth_lock_timeout = 2000, vco_alc_timeout = 5000,
            adc_clk_div = 62, vco_band_div = 21\<rparr> \<and>
         (2000 :: nat) = DIV_ROUND_UP 100000000 50000 \<and>
         (5000 :: nat) = DIV_ROUND_UP 100000000 20000 \<and>
         (21 :: nat) = DIV_ROUND_UP 100000000 (150000 * 16 * 2) \<and>
         (62 :: nat) = DIV_ROUND_UP (100000000 div 400000 - 2) 4"
proof -
  have pfd: "adf4377_compute_pfd H dev = dev\<lparr>ref_div_factor := 1, f_pfd := 100000000\<rparr>"
    using assms by (simp add: adf4377_compute_pfd_def Let_def)
  have "adf4377_calib_clocks H 100000000 =
           \<lparr>f_div_rclk = 100000000,
            dclk_div1 = ADF4377_DCLK_DIV1_1 H, dclk_div2 = ADF4377_DCLK_DIV2_1 H,
            dclk_mode = ADF4377_DCLK_MODE_EN H,
            synth_lock_timeout = 2000, vco_alc_timeout = 5000,
            adc_clk_div = 62, vco_band_div = 21\<rparr>"
    using assms(5)
    by (simp add: adf4377_calib_clocks_def Let_def DIV_ROUND_UP_def
        ADF4377_FREQ_PFD_80MHZ_def ADF4377_FREQ_PFD_125MHZ_def)
  with pfd show ?thesis
    by (simp add: DIV_ROUND_UP_def)
qed

text \<open>The device of the mock bus and the scenario header meet the hypotheses.\<close>

theorem scenario_S1_calibration_witness:
  "ref_div_factor (adf4377_compute_pfd scenario_h (mock_dev 0 None good_regs)) = 1 \<and>
   f_pfd (adf4377_compute_pfd scenario_h (mock_dev 0 None good_regs)) = 100000000 \<and>
   adf4377_calib_clocks scenario_h
      (f_pfd (adf4377_compute_pfd scenario_h (mock_dev 0 None good_regs))) =
     \<lparr>f_div_rclk = 100000000,
      dclk_div1 = ADF4377_DCLK_DIV1_1 scenario_h, dclk_div2 = ADF4377_DCLK_DIV2_1 scenario_h,
      dclk_mode = ADF4377_DCLK_MODE_EN scenario_h,
      synth_lock_timeout = 2000, vco_alc_timeout = 5000,
      adc_clk_div = 62, vco_band_div = 21\<rparr> \<and>
   (2000 :: nat) = DIV_ROUND_UP 100000000 50000 \<and>
   (5000 :: nat) = DIV_ROUND_UP 100000000 20000 \<and>
   (21 :: nat) = DIV_ROUND_UP 100000000 (150000 * 16 * 2) \<and>
   (62 :: nat) = DIV_ROUND_UP (100000000 div 400000 - 2) 4"
  by (rule scenario_S1_calibration) (simp_all add: mock_dev_def scenario_h_def)

subsection \<open>The VCO range\<close>

text \<open>A register access changes nothing of the device structure but the bus descriptor.\<close>

lemma adf4377_spi_write_frame:
  "adf4377_spi_write dev reg_addr data = (ret, dev') \<Longrightarrow> \<exists>s. dev' = dev\<lparr>spi_desc := s\<rparr>"
  by (auto simp add: adf4377_spi_write_def split: prod.splits)

lemma adf4377_spi_read_frame:
  "adf4377_spi_read H dev reg_addr data = (ret, data', dev') \<Longrightarrow> \<exists>s. dev' = dev\<lparr>spi_desc := s\<rparr>"
  by (auto simp add: adf4377_spi_read_def split: prod.splits if_splits)

lemma adf4377_update_frame:
  "adf4377_update H dev reg_addr msk data = (ret, dev') \<Longrightarrow> \<exists>s. dev' = dev\<lparr>spi_desc := s\<rparr>"
  by (auto simp add: adf4377_update_def split: prod.splits if_splits
      dest!: adf4377_spi_write_frame adf4377_spi_read_frame)

text \<open>When the doubling loop ends, it has doubled \<open>f_vco\<close> some \<open>k\<close> times and counted
  them in \<open>clkout_div_sel\<close>; the result has reached the minimal VCO frequency and no
  earlier doubling had.\<close>

lemma adf4377_set_freq_loop_spec:
  assumes "adf4377_set_freq_loop H dev = Some dev'"
  shows "\<exists>k. dev' = dev\<lparr>f_vco := f_vco dev * 2 ^ k, clkout_div_sel := clkout_div_sel dev + k\<rparr> \<and>
           ADF4377_MIN_VCO_FREQ H \<le> f_vco dev * 2 ^ k \<and>
           (\<forall>j<k. f_vco dev * 2 ^ j < ADF4377_MIN_VCO_FREQ H)"
  using assms
proof (induction rule: adf4377_set_freq_loop.raw_induct [rotated 1, consumes 1])
  case (1 loop H dev dev')
  show ?case
  proof (cases "f_vco dev < ADF4377_MIN_VCO_FREQ H")
    case False
    with 1(2) have "dev' = dev" by simp
    with False show ?thesis
      by (intro exI [of _ 0]) simp
  next
    case True
    let ?d = "dev\<lparr>f_vco := push_bit 1 (f_vco dev), clkout_div_sel := clkout_div_sel dev + 1\<rparr>"
    from True 1(2) have "loop H ?d = Some dev'" by simp
    from 1(1) [OF this] obtain k where k:
      "dev' = ?d\<lparr>f_vco := f_vco ?d * 2 ^ k, clkout_div_sel := clkout_div_sel ?d + k\<rparr>"
      "ADF4377_MIN_VCO_FREQ H \<le> f_vco ?d * 2 ^ k"
      "\<forall>j<k. f_vco ?d * 2 ^ j < ADF4377_MIN_VCO_FREQ H"
      by blast
    have "\<forall>j<Suc k. f_vco dev * 2 ^ j < ADF4377_MIN_VCO_FREQ H"
    proof (intro allI impI)
      fix j assume "j < Suc k"
      show "f_vco dev * 2 ^ j < ADF4377_MIN_VCO_FREQ H"
      proof (cases j)
        case 0
        with True show ?thesis by simp
      next
        case (Suc i)
        with \<open>j < Suc k\<close> k(3) have "f_vco ?d * 2 ^ i < ADF4377_MIN_VCO_FREQ H" by simp
        with Suc show ?thesis by (simp add: mult.assoc)
      qed
    qed
    with k(1,2) show ?thesis
      by (intro exI [of _ "Suc k"]) (simp add: mult.assoc)
  qed
qed

text \<open>The loop ends whenever it starts from a positive frequency.\<close>

lemma adf4377_set_freq_loop_returns:
  assumes "0 < f_vco dev"
  shows "\<exists>dev'. adf4377_set_freq_loop H dev = Some dev'"
  using assms
proof (induction "ADF4377_MIN_VCO_FREQ H - f_vco dev" arbitrary: dev rule: less_induct)
  case less
  show ?case
  proof (cases "f_vco dev < ADF4377_MIN_VCO_FREQ H")
    case False
    then show ?thesis
      by (subst adf4377_set_freq_loop.simps) simp
  next
    case True
    let ?d = "dev\<lparr>f_vco := push_bit 1 (f_vco dev), clkout_div_sel := clkout_div_sel dev + 1\<rparr>"
    have "ADF4377_MIN_VCO_FREQ H - f_vco ?d < ADF4377_MIN_VCO_FREQ H - f_vco dev"
      using True less.prems by simp
    moreover have "0 < f_vco ?d"
      using less.prems by simp
    ultimately have "\<exists>dev'. adf4377_set_freq_loop H ?d = Some dev'"
      by (rule less.hyps)
    with True show ?thesis
      by (subst adf4377_set_freq_loop.simps) simp
  qed
qed

text \<open>What \<^verbatim>\<open>adf4377_set_freq\<close> leaves in the device structure once the range check has
  passed, whatever the bus then does.\<close>

lemma adf4377_set_freq_result:
  assumes "adf4377_set_freq H dev = Some (ret, dev')"
    and "\<not> ADF4377_CHECK_RANGE (f_clk dev) (ADF4377_MIN_CLKPN_FREQ H) (ADF4377_MAX_CLKPN_FREQ H)"
  shows "\<exists>d s. adf4377_set_freq_loop H (dev\<lparr>clkout_div_sel := 0, f_vco := f_clk dev\<rparr>) = Some d \<and>
           f_pfd d \<noteq> 0 \<and> dev' = d\<lparr>n_int := f_clk d div f_pfd d, spi_desc := s\<rparr>"
  using assms
  by (auto simp add: adf4377_set_freq_def Let_def checked_opt_def
      split: option.splits if_splits prod.splits
      dest!: adf4377_update_frame adf4377_spi_write_frame)

text \<open>\<^verbatim>\<open>adf4377_set_freq\<close> returns for every positive output frequency in range and
  every positive PFD frequency.\<close>

lemma adf4377_set_freq_returns:
  assumes "\<not> ADF4377_CHECK_RANGE (f_clk dev) (ADF4377_MIN_CLKPN_FREQ H) (ADF4377_MAX_CLKPN_FREQ H)"
    and "0 < f_clk dev" and "0 < f_pfd dev"
  shows "\<exists>ret dev'. adf4377_set_freq H dev = Some (ret, dev')"
proof -
  from adf4377_set_freq_loop_returns [of "dev\<lparr>clkout_div_sel := 0, f_vco := f_clk dev\<rparr>" H] assms(2)
  obtain d where d: "adf4377_set_freq_loop H (dev\<lparr>clkout_div_sel := 0, f_vco := f_clk dev\<rparr>) = Some d"
    by auto
  from adf4377_set_freq_loop_spec [OF d] assms(3) have "f_pfd d \<noteq> 0"
    by auto
  with d assms(1) show ?thesis
    by (simp add: adf4377_set_freq_def Let_def checked_opt_def split: prod.splits)
qed

text \<open>The definitions that evaluate setup on the mock bus.\<close>

lemmas setup_eval = adf4377_setup_def adf4377_soft_reset_def adf4377_soft_reset_poll.simps
  adf4377_update_def reg_eval checked_def checked_opt_def checked_call_def
  ADF4377_REG_def soft_reset_bit_def wrong_chip_regs_def stuck_regs_def
  adf4377_check_scratchpad_def adf4377_set_default_def adf4377_compute_pfd_def
  adf4377_set_freq_def adf4377_set_freq_loop.simps
  ADF4377_CHECK_RANGE_def adf4377_calib_clocks_def
  ADF4377_FREQ_PFD_80MHZ_def ADF4377_FREQ_PFD_125MHZ_def ADF4377_FREQ_PFD_160MHZ_def
  ADF4377_FREQ_PFD_250MHZ_def ADF4377_FREQ_PFD_320MHZ_def DIV_ROUND_UP_def Let_def

text \<open>
  Claim C7. For an output frequency within the legal range, once
  \<^verbatim>\<open>adf4377_set_freq\<close> has returned \<open>SUCCESS\<close>: \<open>clkout_div_sel\<close> is the smallest
  \<open>e\<close> with \<open>f_clk * 2 ^ e \<ge> ADF4377_MIN_VCO_FREQ\<close>; \<open>f_vco = f_clk * 2 ^ clkout_div_sel\<close>;
  when \<open>f_clk\<close> is below the minimal VCO frequency, \<open>f_vco\<close> lies between that minimum
  and twice that minimum; and \<open>n_int\<close> is the truncated quotient \<open>f_clk / f_pfd\<close>.
\<close>

theorem set_freq_vco_range:
  assumes "\<not> ADF4377_CHECK_RANGE (f_clk dev) (ADF4377_MIN_CLKPN_FREQ H) (ADF4377_MAX_CLKPN_FREQ H)"
    and "adf4377_set_freq H dev = Some (SUCCESS H, dev')"
  shows "clkout_div_sel dev' = (LEAST e. ADF4377_MIN_VCO_FREQ H \<le> f_clk dev * 2 ^ e) \<and>
         f_vco dev' = f_clk dev * 2 ^ clkout_div_sel dev' \<and>
         (f_clk dev < ADF4377_MIN_VCO_FREQ H \<longrightarrow>
            ADF4377_MIN_VCO_FREQ H \<le> f_vco dev' \<and> f_vco dev' \<le> 2 * ADF4377_MIN_VCO_FREQ H) \<and>
         n_int dev' = f_clk dev div f_pfd dev"
proof -
  from adf4377_set_freq_result [OF assms(2,1)] obtain d s where
    d: "adf4377_set_freq_loop H (dev\<lparr>clkout_div_sel := 0, f_vco := f_clk dev\<rparr>) = Some d"
    and dev': "dev' = d\<lparr>n_int := f_clk d div f_pfd d, spi_desc := s\<rparr>"
    by blast
  from adf4377_set_freq_loop_spec [OF d] obtain k where
    dk: "d = dev\<lparr>clkout_div_sel := 0, f_vco := f_clk dev,
                  f_vco := f_clk dev * 2 ^ k, clkout_div_sel := k\<rparr>"
    and ge: "ADF4377_MIN_VCO_FREQ H \<le> f_clk dev * 2 ^ k"
    and lt: "\<forall>j<k. f_clk dev * 2 ^ j < ADF4377_MIN_VCO_FREQ H"
    by auto
  have least: "(LEAST e. ADF4377_MIN_VCO_FREQ H \<le> f_clk dev * 2 ^ e) = k"
  proof (rule Least_equality)
    show "ADF4377_MIN_VCO_FREQ H \<le> f_clk dev * 2 ^ k" by (rule ge)
  next
    fix e assume "ADF4377_MIN_VCO_FREQ H \<le> f_clk dev * 2 ^ e"
    with lt show "k \<le> e"
      by (meson not_le)
  qed
  have upper: "f_clk dev * 2 ^ k \<le> 2 * ADF4377_MIN_VCO_FREQ H"
    if "f_clk dev < ADF4377_MIN_VCO_FREQ H"
  proof (cases k)
    case 0
    with that show ?thesis by simp
  next
    case (Suc i)
    with lt have "f_clk dev * 2 ^ i < ADF4377_MIN_VCO_FREQ H" by simp
    with Suc show ?thesis by simp
  qed
  from dev' dk least ge upper show ?thesis
    by simp
qed

text \<open>Scenario S3: an output of 1 GHz under a minimal VCO frequency of 4 GHz, with a PFD
  frequency of 100 MHz, gives the exponent 2, a VCO frequency of 4 GHz and \<open>n_int = 10\<close>.\<close>

theorem set_freq_vco_range_witness:
  "adf4377_set_freq scenario_h ((mock_dev 0 None good_regs)\<lparr>f_pfd := 100000000\<rparr>) =
     Some (0, (mock_dev 0 None good_regs)\<lparr>f_pfd := 100000000, f_vco := 4000000000,
        clkout_div_sel := 2, n_int := 10,
        spi_desc := (spi_desc (mock_dev 0 None good_regs))\<lparr>chip := 5,
          sent := [(0x80, 0x11, 0), (0, 0x11, 0), (0x80, 0x12, 0), (0, 0x12, 0), (0, 0x10, 0)]\<rparr>\<rparr>) \<and>
   (LEAST e. (4000000000 :: nat) \<le> 1000000000 * 2 ^ e) = 2"
proof -
  let ?dev = "(mock_dev 0 None good_regs)\<lparr>f_pfd := 100000000\<rparr>"
  let ?dev' = "(mock_dev 0 None good_regs)\<lparr>f_pfd := 100000000, f_vco := 4000000000,
        clkout_div_sel := 2, n_int := 10,
        spi_desc := (spi_desc (mock_dev 0 None good_regs))\<lparr>chip := 5,
          sent := [(0x80, 0x11, 0), (0, 0x11, 0), (0x80, 0x12, 0), (0, 0x12, 0), (0, 0x10, 0)]\<rparr>\<rparr>"
  have range: "\<not> ADF4377_CHECK_RANGE (f_clk ?dev) (ADF4377_MIN_CLKPN_FREQ scenario_h)
                  (ADF4377_MAX_CLKPN_FREQ scenario_h)"
    by (simp add: ADF4377_CHECK_RANGE_def mock_dev_def scenario_h_def)
  have run: "adf4377_set_freq scenario_h ?dev = Some (SUCCESS scenario_h, ?dev')"
    by (simp add: setup_eval)
  from set_freq_vco_range [OF range run] run show ?thesis
    by (simp add: mock_dev_def scenario_h_def)
qed

subsection \<open>Initialisation and rollback\<close>

lemmas init_defs = adf4377_init_def gpio_get_optional_def gpio_direction_output_def
  gpio_remove_def spi_init_def spi_remove_def free_def error_dev_def error_gpio_ce_def
  error_gpio_enclk1_def error_gpio_enclk2_def error_spi_def
  init_steps_def gpio_steps_def rolled_back_def

lemmas init_eval = mock_platform_def mock_init_param_def adf4377_dev_of_def

text \<open>
  The rollback of \<^verbatim>\<open>adf4377_init\<close> itself, with \<^verbatim>\<open>adf4377_setup\<close> taken by the code
  it returns. When the memory has been allocated, the function follows the lifecycle of
  section 4.9. If a platform step fails (acquiring or driving the chip-enable, enclk1 or
  enclk2 GPIO, or the SPI initialisation), it returns the code of that step, stores no
  handle, and its events are the acquisitions up to that step followed by the release of
  exactly those resources, last acquired first, the memory last. Otherwise everything is
  held and setup runs: when setup returns an error, that error is returned, no handle is
  stored and everything is released in reverse order; when setup returns \<open>SUCCESS\<close>, the
  handle is stored and nothing is released. What happens when a step of setup fails
  therefore depends on setup returning that failure.
\<close>

theorem init_rolls_back:
  assumes "calloc_ok P"
  shows "case acquire_all (SUCCESS H) (init_steps P init_param) [Memory] of
           (ret, held) \<Rightarrow>
             if ret \<noteq> SUCCESS H
             then adf4377_init H P init_param = Some (ret, None, rolled_back held)
             else
               held = [Memory] @ map Gpio (List.map_filter id
                  [gpio_ce_param init_param, gpio_enclk1_param init_param,
                   gpio_enclk2_param init_param]) @ [Spi] \<and>
               adf4377_init H P init_param =
                 (case adf4377_setup H
                         (adf4377_dev_of init_param (gpio_ce_param init_param)
                            (gpio_enclk1_param init_param) (gpio_enclk2_param init_param)) of
                    None \<Rightarrow> None
                  | Some (ret, dev) \<Rightarrow>
                      if ret \<noteq> SUCCESS H then Some (ret, None, rolled_back held)
                      else Some (ret, Some dev, map Acquire held))"
  using assms
  by (cases "gpio_ce_param init_param"; cases "gpio_enclk1_param init_param";
      cases "gpio_enclk2_param init_param")
    (simp_all add: init_defs Let_def List.map_filter_def split: option.splits)

text \<open>Scenario S5: the SPI initialisation fails with -5 after the three GPIOs were
  acquired; they are released in reverse order, then the memory, and -5 is returned.\<close>

theorem init_rolls_back_witness:
  "adf4377_init scenario_h (mock_platform (- 5)) (mock_init_param None good_regs) =
     Some (- 5, None,
       [Acquire Memory, Acquire (Gpio 1), Acquire (Gpio 2), Acquire (Gpio 3),
        Release (Gpio 3), Release (Gpio 2), Release (Gpio 1), Release Memory])"
  using init_rolls_back [of "mock_platform (- 5)" scenario_h "mock_init_param None good_regs"]
  by (simp add: init_eval init_steps_def gpio_steps_def rolled_back_def scenario_h_def)

text \<open>On the mock bus whose first transfer fails, setup fails with -5 and everything,
  the SPI descriptor included, is released; on the mock bus that answers as expected,
  initialisation succeeds and keeps everything.\<close>

lemma init_setup_failure_mock:
  "adf4377_init scenario_h (mock_platform 0) (mock_init_param (Some 0) good_regs) =
     Some (- 5, None,
       [Acquire Memory, Acquire (Gpio 1), Acquire (Gpio 2), Acquire (Gpio 3), Acquire Spi,
        Release Spi, Release (Gpio 3), Release (Gpio 2), Release (Gpio 1), Release Memory])"
  by (simp add: init_defs init_eval setup_eval)

lemma init_success_mock:
  "map_option (\<lambda>(ret, handle, events). (ret, handle \<noteq> None, events))
     (adf4377_init scenario_h (mock_platform 0) (mock_init_param None good_regs)) =
     Some (0, True,
       [Acquire Memory, Acquire (Gpio 1), Acquire (Gpio 2), Acquire (Gpio 3), Acquire Spi])"
  by (simp add: init_defs init_eval setup_eval numeral_2_eq_2 [symmetric])

subsection \<open>Software reset\<close>

text \<open>
  One iteration of the poll: it returns the bus error, or \<open>SUCCESS\<close> when the reset bit
  of the byte read is 0, and otherwise starts again with the same \<open>timeout\<close>.
\<close>

lemma adf4377_soft_reset_poll_step:
  assumes "timeout \<noteq> 0"
    and "transfer (spi_desc dev) (chip (spi_desc dev))
           (adf4377_spi_read_buff (bit_order (spi_desc dev)) (ADF4377_REG 0x00)) =
           (ret, (b0, b1, b2), c)"
  shows "adf4377_soft_reset_poll H timeout data dev =
           (let dev1 = dev\<lparr>spi_desc := (spi_desc dev)\<lparr>chip := c,
                  sent := sent (spi_desc dev) @
                    [adf4377_spi_read_buff (bit_order (spi_desc dev)) (ADF4377_REG 0x00)]\<rparr>\<rparr>
            in if ret \<noteq> SUCCESS H then Some (ret, dev1)
               else if uint b2 AND soft_reset_bit H = 0 then Some (SUCCESS H, dev1)
               else adf4377_soft_reset_poll H timeout (Some b2) dev1)"
  using assms
  by (subst adf4377_soft_reset_poll.simps)
    (simp add: adf4377_spi_read_def spi_write_and_read_def Let_def)

text \<open>
  The poll never returns when the bus answers every read of register 0x00 with
  \<open>SUCCESS\<close> and a byte whose reset bit is set: nothing in the loop changes \<open>timeout\<close>.
\<close>

lemma adf4377_soft_reset_poll_stuck:
  assumes "adf4377_soft_reset_poll H timeout data dev = Some y"
  shows "timeout \<noteq> 0 \<longrightarrow>
         (\<forall>c. \<exists>b0 b1 b2 c'.
            transfer (spi_desc dev) c
              (adf4377_spi_read_buff (bit_order (spi_desc dev)) (ADF4377_REG 0x00)) =
              (SUCCESS H, (b0, b1, b2), c') \<and>
            uint b2 AND soft_reset_bit H \<noteq> 0) \<longrightarrow> False"
  using assms
proof (induction rule: adf4377_soft_reset_poll.raw_induct [rotated 1, consumes 1])
  case (1 poll H timeout data dev y)
  show ?case
  proof (intro impI)
    assume t: "timeout \<noteq> 0"
      and stuck: "\<forall>c. \<exists>b0 b1 b2 c'.
            transfer (spi_desc dev) c
              (adf4377_spi_read_buff (bit_order (spi_desc dev)) (ADF4377_REG 0x00)) =
              (SUCCESS H, (b0, b1, b2), c') \<and>
            uint b2 AND soft_reset_bit H \<noteq> 0"
    then obtain b0 b1 b2 c' where rd:
      "transfer (spi_desc dev) (chip (spi_desc dev))
         (adf4377_spi_read_buff (bit_order (spi_desc dev)) (ADF4377_REG 0x00)) =
         (SUCCESS H, (b0, b1, b2), c')"
      and bit: "uint b2 AND soft_reset_bit H \<noteq> 0"
      by blast
    let ?dev1 = "dev\<lparr>spi_desc := (spi_desc dev)\<lparr>chip := c',
        sent := sent (spi_desc dev) @
          [adf4377_spi_read_buff (bit_order (spi_desc dev)) (ADF4377_REG 0x00)]\<rparr>\<rparr>"
    have "adf4377_spi_read H dev (ADF4377_REG 0x00) data = (SUCCESS H, Some b2, ?dev1)"
      using rd by (simp add: adf4377_spi_read_def spi_write_and_read_def)
    with 1(2) t bit have "poll H timeout (Some b2) ?dev1 = Some y"
      by simp
    from 1(1) [OF this]
    have "timeout \<noteq> 0 \<longrightarrow>
         (\<forall>c. \<exists>b0 b1 b2 c'.
            transfer (spi_desc dev) c
              (adf4377_spi_read_buff (bit_order (spi_desc dev)) (ADF4377_REG 0x00)) =
              (SUCCESS H, (b0, b1, b2), c') \<and>
            uint b2 AND soft_reset_bit H \<noteq> 0) \<longrightarrow> False"
      by simp
    with t stuck show False
      by blast
  qed
qed

lemma adf4377_soft_reset_poll_never_returns:
  assumes "timeout \<noteq> 0"
    and "\<forall>c. \<exists>b0 b1 b2 c'.
            transfer (spi_desc dev) c
              (adf4377_spi_read_buff (bit_order (spi_desc dev)) (ADF4377_REG 0x00)) =
              (SUCCESS H, (b0, b1, b2), c') \<and>
            uint b2 AND soft_reset_bit H \<noteq> 0"
  shows "adf4377_soft_reset_poll H timeout data dev = None"
proof (cases "adf4377_soft_reset_poll H timeout data dev")
  case None
  then show ?thesis .
next
  case (Some y)
  from adf4377_soft_reset_poll_stuck [OF Some] assms show ?thesis
    by blast
qed

text \<open>
  Claim C1 says that \<^verbatim>\<open>adf4377_soft_reset\<close> polls register 0x00 at most 65535 times and
  returns the failure value when the reset bit never clears. On the mock chip whose
  register 0x00 always reads 0x01, with every transfer succeeding, the call does not
  return at all.
\<close>

theorem soft_reset_never_times_out:
  "adf4377_soft_reset scenario_h (mock_dev 0 None stuck_regs) = None"
proof -
  let ?dev1 = "(mock_dev 0 None stuck_regs)\<lparr>spi_desc :=
      (spi_desc (mock_dev 0 None stuck_regs))\<lparr>chip := 2,
        sent := [(0x80, 0x00, 0x00), (0x00, 0x00, 0x01)]\<rparr>\<rparr>"
  have upd: "adf4377_soft_reset scenario_h (mock_dev 0 None stuck_regs) =
      adf4377_soft_reset_poll scenario_h 0xFFFF None ?dev1"
    by (simp add: adf4377_soft_reset_def adf4377_update_def reg_eval checked_opt_def
        ADF4377_REG_def stuck_regs_def Let_def numeral_2_eq_2 [symmetric])
  have "adf4377_soft_reset_poll scenario_h 0xFFFF None ?dev1 = None"
    by (rule adf4377_soft_reset_poll_never_returns)
      (simp_all add: reg_eval ADF4377_REG_def stuck_regs_def soft_reset_bit_def)
  with upd show ?thesis
    by simp
qed

subsection \<open>Setup\<close>

text \<open>
  Claim C2 says that a chip-type byte other than \<^verbatim>\<open>ADF4377_CHIP_TYPE\<close> makes setup
  fail with an error. On the mock chip whose register 0x03 reads 0x07 (the expected type
  being 0x06), setup stops after the read of register 0x03, the fifth transfer, and
  returns \<open>SUCCESS\<close>.
\<close>

theorem chip_type_mismatch_returns_success:
  "adf4377_setup scenario_h (mock_dev 0 None wrong_chip_regs) =
     Some (SUCCESS scenario_h,
       (mock_dev 0 None wrong_chip_regs)\<lparr>spi_desc :=
          (spi_desc (mock_dev 0 None wrong_chip_regs))\<lparr>chip := 5,
            sent := [(0x80, 0x00, 0x00), (0x00, 0x00, 0x01), (0x80, 0x00, 0x00),
                     (0x00, 0x00, 0x00), (0x80, 0x03, 0x00)]\<rparr>\<rparr>)"
  by (simp add: setup_eval)

text \<open>
  Claim C5 says that every step of setup is checked and that the first failure is
  returned. A full setup on the mock bus takes 62 transfers. When transfer 50, the
  power-up write to register 0x1A, fails, setup goes on through
  \<^verbatim>\<open>adf4377_set_freq\<close> to the end and returns \<open>SUCCESS\<close> after 62 transfers. When
  transfer 58, the read of the update of register 0x20 that disables the ADC clock,
  fails, setup goes on to the output-amplitude update and returns \<open>SUCCESS\<close> after 61
  transfers. A checked step behaves as claimed: when transfer 49, the write to register
  0x2D, fails, setup returns -5 after 50 transfers.
\<close>

theorem setup_swallows_failures:
  "map_option (\<lambda>(ret, dev). (ret, length (sent (spi_desc dev)), sent (spi_desc dev) ! 50))
     (adf4377_setup scenario_h (mock_dev 0 (Some 50) good_regs)) =
     Some (SUCCESS scenario_h, 62, (0x00, 0x1A, 0x00)) \<and>
   map_option (\<lambda>(ret, dev). (ret, length (sent (spi_desc dev)), sent (spi_desc dev) ! 58))
     (adf4377_setup scenario_h (mock_dev 0 (Some 58) good_regs)) =
     Some (SUCCESS scenario_h, 61, (0x80, 0x20, 0x00)) \<and>
   map_option (\<lambda>(ret, dev). (ret, length (sent (spi_desc dev)), sent (spi_desc dev) ! 49))
     (adf4377_setup scenario_h (mock_dev 0 (Some 49) good_regs)) =
     Some (- 5, 50, (0x00, 0x2D, 0x00))"
  by (simp add: setup_eval numeral_2_eq_2 [symmetric])

subsection \<open>Initialisation when a step of setup fails\<close>

text \<open>
  Claim C4 says that at every failure point inside \<^verbatim>\<open>adf4377_init\<close>, any step of setup
  included, the resources acquired so far are released in reverse order, the memory is
  freed and the error of the failing step is returned. On the mock bus, with every
  platform service succeeding: when transfer 50 (the power-up write to register 0x1A)
  fails, when transfer 58 (the read of the update of register 0x20 that disables the ADC
  clock) fails, and when register 0x03 reads a wrong chip type, \<^verbatim>\<open>adf4377_init\<close>
  returns \<open>SUCCESS\<close>, stores the handle and releases nothing. Where setup does return the
  failure, the rollback is as claimed: when transfer 49 (the write to register 0x2D) fails,
  -5 is returned and everything is released in reverse order.
\<close>

theorem init_succeeds_after_failed_setup_step:
  "map_option (\<lambda>(ret, handle, events). (ret, handle \<noteq> None, events))
     (adf4377_init scenario_h (mock_platform 0) (mock_init_param (Some 50) good_regs)) =
     Some (SUCCESS scenario_h, True,
       [Acquire Memory, Acquire (Gpio 1), Acquire (Gpio 2), Acquire (Gpio 3), Acquire Spi]) \<and>
   map_option (\<lambda>(ret, handle, events). (ret, handle \<noteq> None, events))
     (adf4377_init scenario_h (mock_platform 0) (mock_init_param (Some 58) good_regs)) =
     Some (SUCCESS scenario_h, True,
       [Acquire Memory, Acquire (Gpio 1), Acquire (Gpio 2), Acquire (Gpio 3), Acquire Spi]) \<and>
   map_option (\<lambda>(ret, handle, events). (ret, handle \<noteq> None, events))
     (adf4377_init scenario_h (mock_platform 0) (mock_init_param None wrong_chip_regs)) =
     Some (SUCCESS scenario_h, True,
       [Acquire Memory, Acquire (Gpio 1), Acquire (Gpio 2), Acquire (Gpio 3), Acquire Spi]) \<and>
   adf4377_init scenario_h (mock_platform 0) (mock_init_param (Some 49) good_regs) =
     Some (- 5, None,
       [Acquire Memory, Acquire (Gpio 1), Acquire (Gpio 2), Acquire (Gpio 3), Acquire Spi,
        Release Spi, Release (Gpio 3), Release (Gpio 2), Release (Gpio 1), Release Memory])"
  by (simp add: init_defs init_eval setup_eval numeral_2_eq_2 [symmetric])

text \<open>On the mock chip whose reset bit never clears, \<^verbatim>\<open>adf4377_init\<close> does not return,
  and so releases nothing.\<close>

lemma init_never_returns_mock:
  "adf4377_init scenario_h (mock_platform 0) (mock_init_param None stuck_regs) = None"
proof -
  let ?dev = "adf4377_dev_of (mock_init_param None stuck_regs) (Some 1) (Some 2) (Some 3)"
  let ?dev1 = "?dev\<lparr>spi_desc := (spi_desc ?dev)\<lparr>chip := 2,
        sent := [(0x80, 0x00, 0x00), (0x00, 0x00, 0x01)]\<rparr>\<rparr>"
  have upd: "adf4377_soft_reset scenario_h (?dev\<lparr>ref_div_factor := 0\<rparr>) =
      adf4377_soft_reset_poll scenario_h 0xFFFF None ?dev1"
    by (simp add: adf4377_soft_reset_def adf4377_update_def reg_eval checked_opt_def init_eval
        ADF4377_REG_def stuck_regs_def Let_def numeral_2_eq_2 [symmetric])
  have "adf4377_soft_reset_poll scenario_h 0xFFFF None ?dev1 = None"
    by (rule adf4377_soft_reset_poll_never_returns)
      (simp_all add: reg_eval init_eval ADF4377_REG_def stuck_regs_def soft_reset_bit_def)
  with upd have "adf4377_setup scenario_h ?dev = None"
    by (simp add: adf4377_setup_def checked_call_def Let_def)
  then show ?thesis
    by (simp add: init_defs mock_platform_def mock_init_param_def scenario_h_def)
qed

end
